theory Spec2Isabelle
  imports Main "HOL-Library.Word"
begin

section \<open>VaultVerse security core: data model\<close>

text \<open>
  The server code (\<^verbatim>\<open>utils/encryption.js\<close>, \<^verbatim>\<open>utils/jwt.js\<close>, \<^verbatim>\<open>middleware/auth.js\<close>,
  \<^verbatim>\<open>controllers/authController.js\<close>, \<^verbatim>\<open>controllers/exportController.js\<close>) is embedded as
  pure functions. Every effect is explicit: the SQLite tables are fields of a state
  record that each operation returns updated, the clock and the random source are
  arguments, thrown errors are the \<open>Inl\<close> side of a sum. Instants are in milliseconds;
  the column \<^verbatim>\<open>expires_at\<close> holds the text the code writes there, and is compared as
  text, as SQLite does. A string is the list of its code units, which are taken to be
  below 256. The calls into npm packages and Node built-ins (AES, bcrypt, SHA-256,
  jsonwebtoken, crypto-js, JSON) are not code of the repository: they are the fields of
  the record \<open>lib\<close>, as is the text SQLite prints for a date, and a theorem that needs
  a property of one of them states it as a hypothesis, at the values it is used on.
\<close>

type_synonym byte = "8 word"
type_synonym bytes = "byte list"
type_synonym time = int

datatype js_error = Error string

datatype json =
    JNull
  | JBool bool
  | JNum int
  | JStr string
  | JArr "json list"
  | JObj "(string \<times> json) list"

text \<open>
  The payloads this server signs: \<^verbatim>\<open>generateAccessToken\<close> signs
  \<^verbatim>\<open>{userId, username, email, type: 'access'}\<close> and \<^verbatim>\<open>generateRefreshToken\<close> signs
  \<^verbatim>\<open>{userId, tokenHash, type: 'refresh'}\<close>; the constructor is the \<^verbatim>\<open>type\<close> field.
\<close>

datatype jwt_payload =
    Access nat string string
  | Refresh nat string

datatype jwt_error = TokenExpiredError | JsonWebTokenError | NotBeforeError

record lib =
  aes_256_cbc_encrypt :: "bytes \<Rightarrow> bytes \<Rightarrow> string \<Rightarrow> bytes"
  aes_256_cbc_decrypt :: "bytes \<Rightarrow> bytes \<Rightarrow> bytes \<Rightarrow> string option"
  bcrypt_compare :: "string \<Rightarrow> string \<Rightarrow> bool option"
  sha256_hex :: "string \<Rightarrow> string"
  jwt_sign :: "jwt_payload \<Rightarrow> string \<Rightarrow> string \<Rightarrow> time \<Rightarrow> string"
  jwt_verify :: "string \<Rightarrow> string \<Rightarrow> time \<Rightarrow> jwt_error + jwt_payload"
  jwt_decode_exp :: "string \<Rightarrow> time option"
  CryptoJS_AES_encrypt :: "string \<Rightarrow> string \<Rightarrow> bytes \<Rightarrow> string"
  CryptoJS_AES_decrypt :: "json \<Rightarrow> string \<Rightarrow> bytes option"
  CryptoJS_enc_Utf8 :: "bytes \<Rightarrow> string option"
  JSON_stringify :: "json \<Rightarrow> string"
  JSON_parse :: "string \<Rightarrow> json option"
  toISOString :: "time \<Rightarrow> string"
  sqlite_datetime :: "time \<Rightarrow> string"

text \<open>
  \<^item> \<open>aes_256_cbc_encrypt key iv text\<close> is \<^verbatim>\<open>cipher.update(text, 'utf8') + cipher.final()\<close>
    as bytes; \<open>aes_256_cbc_decrypt key iv ct\<close> is the text
    \<^verbatim>\<open>decipher.update(ct) + decipher.final('utf8')\<close>, \<open>None\<close> when \<^verbatim>\<open>final\<close> throws.
  \<^item> \<open>bcrypt_compare\<close> is \<^verbatim>\<open>bcrypt.compare\<close>, \<open>None\<close> when it throws.
  \<^item> \<open>sha256_hex\<close> is \<^verbatim>\<open>crypto.createHash('sha256').update(t).digest('hex')\<close>.
  \<^item> \<open>jwt_sign payload secret expiresIn now\<close> and \<open>jwt_verify token secret now\<close> are
    \<^verbatim>\<open>jwt.sign\<close> and \<^verbatim>\<open>jwt.verify\<close> with the issuer and audience the code passes;
    \<open>jwt_decode_exp\<close> is \<^verbatim>\<open>jwt.decode(token).exp * 1000\<close>, \<open>None\<close> when the token does not
    decode or its payload has no \<^verbatim>\<open>exp\<close>.
  \<^item> \<open>CryptoJS_AES_encrypt text passphrase salt\<close> is
    \<^verbatim>\<open>CryptoJS.AES.encrypt(text, passphrase).toString()\<close> with the salt it draws;
    \<open>CryptoJS_AES_decrypt\<close> is \<^verbatim>\<open>CryptoJS.AES.decrypt\<close> (its first argument is whatever
    JSON value the package holds) and \<open>CryptoJS_enc_Utf8\<close> is
    \<^verbatim>\<open>.toString(CryptoJS.enc.Utf8)\<close>; \<open>None\<close> when they throw.
  \<^item> \<open>toISOString t\<close> is \<^verbatim>\<open>new Date(t).toISOString()\<close>, the text
    \<^verbatim>\<open>YYYY-MM-DDTHH:MM:SS.sssZ\<close>; \<open>sqlite_datetime t\<close> is what SQLite's
    \<^verbatim>\<open>datetime('now')\<close> returns when the clock shows \<open>t\<close>, the text
    \<^verbatim>\<open>YYYY-MM-DD HH:MM:SS\<close>, so that \<^verbatim>\<open>datetime('now', '+7 days')\<close> is
    \<open>sqlite_datetime (t + 604800000)\<close>.
\<close>

record config =
  aesKey :: string
  exportKey :: string
  jwt_secret :: string
  jwt_expiresIn :: string
  jwt_refreshExpiresIn :: string

subsection \<open>Byte buffers and strings\<close>

text \<open>\<^verbatim>\<open>buf.toString('hex')\<close>: two lower-case digits per byte.\<close>

definition hex_digit :: "nat \<Rightarrow> char" where
  "hex_digit n = ''0123456789abcdef'' ! n"

fun to_hex :: "bytes \<Rightarrow> string" where
  "to_hex [] = []"
| "to_hex (b # bs) = hex_digit (unat b div 16) # hex_digit (unat b mod 16) # to_hex bs"

text \<open>
  \<^verbatim>\<open>Buffer.from(s, 'hex')\<close>: decodes pairs of hexadecimal digits of either case and stops
  at the first pair that is not one; a trailing single character is dropped.
\<close>

definition hex_val :: "char \<Rightarrow> nat option" where
  "hex_val c = map_of
     [(CHR ''0'', 0), (CHR ''1'', 1), (CHR ''2'', 2), (CHR ''3'', 3), (CHR ''4'', 4),
      (CHR ''5'', 5), (CHR ''6'', 6), (CHR ''7'', 7), (CHR ''8'', 8), (CHR ''9'', 9),
      (CHR ''a'', 10), (CHR ''b'', 11), (CHR ''c'', 12), (CHR ''d'', 13), (CHR ''e'', 14),
      (CHR ''f'', 15), (CHR ''A'', 10), (CHR ''B'', 11), (CHR ''C'', 12), (CHR ''D'', 13),
      (CHR ''E'', 14), (CHR ''F'', 15)] c"

fun from_hex :: "string \<Rightarrow> bytes" where
  "from_hex (a # b # rest) =
     (case (hex_val a, hex_val b) of
        (Some h, Some l) \<Rightarrow> word_of_nat (16 * h + l) # from_hex rest
      | _ \<Rightarrow> [])"
| "from_hex _ = []"

text \<open>\<^verbatim>\<open>s.split(sep)\<close> for a one-character separator.\<close>

fun split_on :: "char \<Rightarrow> string \<Rightarrow> string list" where
  "split_on sep [] = [[]]"
| "split_on sep (c # cs) =
     (if c = sep then [] # split_on sep cs
      else (case split_on sep cs of p # ps \<Rightarrow> (c # p) # ps | [] \<Rightarrow> [[c]]))"

text \<open>\<^verbatim>\<open>parts[i]\<close>: \<^verbatim>\<open>undefined\<close> past the end.\<close>

definition nth_opt :: "'a list \<Rightarrow> nat \<Rightarrow> 'a option" where
  "nth_opt xs i = (if i < length xs then Some (xs ! i) else None)"

text \<open>
  The order of SQLite on two TEXT values (the collation \<^verbatim>\<open>BINARY\<close>): the first
  character that differs decides, and a proper prefix comes first.
\<close>

fun text_less :: "string \<Rightarrow> string \<Rightarrow> bool" where
  "text_less [] [] = False"
| "text_less [] (y # ys) = True"
| "text_less (x # xs) [] = False"
| "text_less (x # xs) (y # ys) =
     (of_char x < (of_char y :: nat) \<or> (x = y \<and> text_less xs ys))"

section \<open>Secret Cipher (utils/encryption.js)\<close>

text \<open>
  \<^verbatim>\<open>crypto.createCipheriv('aes-256-cbc', key, iv)\<close> and \<^verbatim>\<open>createDecipheriv\<close> throw unless
  the key has 32 bytes and the IV 16.
\<close>

definition cipher_params_ok :: "bytes \<Rightarrow> bytes \<Rightarrow> bool" where
  "cipher_params_ok key iv \<longleftrightarrow> length key = 32 \<and> length iv = 16"

text \<open>
  \<^verbatim>\<open>encryptData(plaintext)\<close>; \<open>iv\<close> is what \<^verbatim>\<open>crypto.randomBytes(16)\<close> returned. Every
  error inside the \<^verbatim>\<open>try\<close> is rethrown as the one below.
\<close>

definition encryptData :: "lib \<Rightarrow> config \<Rightarrow> bytes \<Rightarrow> string \<Rightarrow> js_error + string" where
  "encryptData L cfg iv plaintext =
     (if plaintext = [] then Inl (Error ''Gagal mengenkripsi data'')
      else
        let key = from_hex (aesKey cfg) in
        if \<not> cipher_params_ok key iv then Inl (Error ''Gagal mengenkripsi data'')
        else
          let encrypted = to_hex (aes_256_cbc_encrypt L key iv plaintext)
          in Inr (to_hex iv @ '':'' @ encrypted))"

text \<open>
  \<^verbatim>\<open>decryptData(encryptedData)\<close>. \<^verbatim>\<open>Buffer.from(parts[0], 'hex')\<close> decodes what it can
  of the IV; \<^verbatim>\<open>decipher.update(encrypted, 'hex', 'utf8')\<close> throws on a string of odd
  length and decodes one of even length in the same way.
\<close>

definition decryptData :: "lib \<Rightarrow> config \<Rightarrow> string \<Rightarrow> js_error + string" where
  "decryptData L cfg encryptedData =
     (if encryptedData = [] \<or> CHR '':'' \<notin> set encryptedData
      then Inl (Error ''Gagal mendekripsi data. Pastikan kunci enkripsi benar.'')
      else
        let parts = split_on CHR '':'' encryptedData in
        case (nth_opt parts 0, nth_opt parts 1) of
          (Some p0, Some encrypted) \<Rightarrow>
            let iv = from_hex p0;
                key = from_hex (aesKey cfg)
            in if \<not> cipher_params_ok key iv
               then Inl (Error ''Gagal mendekripsi data. Pastikan kunci enkripsi benar.'')
               else if odd (length encrypted)
               then Inl (Error ''Gagal mendekripsi data. Pastikan kunci enkripsi benar.'')
               else (case aes_256_cbc_decrypt L key iv (from_hex encrypted) of
                       Some decrypted \<Rightarrow> Inr decrypted
                     | None \<Rightarrow>
                         Inl (Error ''Gagal mendekripsi data. Pastikan kunci enkripsi benar.''))
        | _ \<Rightarrow> Inl (Error ''Gagal mendekripsi data. Pastikan kunci enkripsi benar.''))"

section \<open>Credential Hasher (utils/encryption.js)\<close>

text \<open>
  \<^verbatim>\<open>verifyPassword(password, hash)\<close>: the result of \<^verbatim>\<open>bcrypt.compare\<close>, and \<^verbatim>\<open>false\<close>
  from the \<^verbatim>\<open>catch\<close> when it throws. The sum type records that the function has no
  path that throws.
\<close>

definition verifyPassword :: "lib \<Rightarrow> string \<Rightarrow> string \<Rightarrow> js_error + bool" where
  "verifyPassword L password hash =
     (case bcrypt_compare L password hash of
        Some matches \<Rightarrow> Inr matches
      | None \<Rightarrow> Inr False)"

text \<open>
  The modular-crypt encoding of a bcrypt digest: \<^verbatim>\<open>$2a$\<close>, \<^verbatim>\<open>$2b$\<close> or \<^verbatim>\<open>$2y$\<close>, a
  two-digit cost, \<^verbatim>\<open>$\<close>, then 53 characters of the bcrypt base-64 alphabet.
\<close>

definition bcrypt_alphabet :: "char \<Rightarrow> bool" where
  "bcrypt_alphabet c \<longleftrightarrow>
     c \<in> set ''./ABCDEFGHIJKLMNOPQRSTUVWXYZabcdefghijklmnopqrstuvwxyz0123456789''"

definition well_formed_digest :: "string \<Rightarrow> bool" where
  "well_formed_digest d \<longleftrightarrow>
     length d = 60
     \<and> take 3 d \<in> {''$2a'', ''$2b'', ''$2y''}
     \<and> d ! 3 = CHR ''$''
     \<and> d ! 4 \<in> set ''0123456789'' \<and> d ! 5 \<in> set ''0123456789''
     \<and> d ! 6 = CHR ''$''
     \<and> list_all bcrypt_alphabet (drop 7 d)"

text \<open>\<^verbatim>\<open>hashToken(token)\<close>.\<close>

definition hashToken :: "lib \<Rightarrow> string \<Rightarrow> string" where
  "hashToken L token = sha256_hex L token"

section \<open>Persistent store (db/schema.sql)\<close>

record user_row =
  u_id :: nat
  u_username :: string
  u_email :: string
  u_password_hash :: string
  u_last_login :: "time option"
  u_login_attempts :: int
  u_locked_until :: "time option"
  u_is_active :: bool

record session_row =
  s_id :: nat
  s_user_id :: nat
  s_token_hash :: string
  s_refresh_token_hash :: "string option"
  s_expires_at :: string
  s_last_activity :: time
  s_device_info :: "string option"
  s_ip_address :: "string option"
  s_is_valid :: bool

record activity_row =
  a_user_id :: nat
  a_action_type :: string
  a_resource_type :: "string option"
  a_resource_id :: "nat option"
  a_details :: "string option"
  a_ip_address :: "string option"

text \<open>
  The tables, the AUTOINCREMENT counter of \<^verbatim>\<open>sessions\<close>, and a ghost field: the calls
  made so far to the Credential Hasher, as (password, digest) pairs. The database file is
  taken to be reachable; a statement that SQLite rejects (a constraint of the schema, or
  a statement it cannot compile) throws, and writes nothing.
\<close>

record state =
  users :: "user_row list"
  sessions :: "session_row list"
  session_seq :: nat
  activity_logs :: "activity_row list"
  hasher_calls :: "(string \<times> string) list"

text \<open>
  The constraints of the table \<^verbatim>\<open>sessions\<close> (with \<^verbatim>\<open>foreign_keys = ON\<close>).
  \<open>insert_rejected st row\<close>: the INSERT of \<open>row\<close> fails, because its \<^verbatim>\<open>user_id\<close> is no
  user's id, or its \<^verbatim>\<open>token_hash\<close> or its non-null \<^verbatim>\<open>refresh_token_hash\<close> is already
  in the table. \<open>token_hash_taken st sid h\<close>: an UPDATE that sets \<^verbatim>\<open>token_hash\<close> to
  \<open>h\<close> in the row with id \<open>sid\<close> fails, because another row holds \<open>h\<close>.
\<close>

definition insert_rejected :: "state \<Rightarrow> session_row \<Rightarrow> bool" where
  "insert_rejected st row \<longleftrightarrow>
     \<not> list_ex (\<lambda>u. u_id u = s_user_id row) (users st)
     \<or> list_ex (\<lambda>s. s_token_hash s = s_token_hash row) (sessions st)
     \<or> (s_refresh_token_hash row \<noteq> None
         \<and> list_ex (\<lambda>s. s_refresh_token_hash s = s_refresh_token_hash row) (sessions st))"

definition token_hash_taken :: "state \<Rightarrow> nat \<Rightarrow> string \<Rightarrow> bool" where
  "token_hash_taken st sid h \<longleftrightarrow>
     list_ex (\<lambda>s. s_id s \<noteq> sid \<and> s_token_hash s = h) (sessions st)"

text \<open>
  Two statements of the code write \<^verbatim>\<open>datetime("now")\<close>, with double quotes:
  \<^verbatim>\<open>UPDATE sessions SET last_activity = datetime("now") WHERE id = ?\<close> in
  \<^verbatim>\<open>validateSession\<close> and
  \<^verbatim>\<open>UPDATE users SET login_attempts = 0, locked_until = NULL, last_login = datetime("now") WHERE id = ?\<close>
  in \<^verbatim>\<open>login\<close>. better-sqlite3 builds SQLite with \<^verbatim>\<open>SQLITE_DQS=0\<close>, under which a
  double-quoted word is an identifier only; there is no column \<^verbatim>\<open>now\<close>, so
  \<^verbatim>\<open>db.prepare\<close> throws and \<^verbatim>\<open>executeUpdate\<close> rethrows. \<open>write\<close> is the update the
  statement asks for; it never takes place.
\<close>

definition executeUpdate_dq_now :: "state \<Rightarrow> (state \<Rightarrow> state) \<Rightarrow> js_error + state" where
  "executeUpdate_dq_now st write = Inl (Error ''no such column: now'')"

text \<open>\<^verbatim>\<open>logActivity(userId, actionType, resourceType, resourceId, details, ipAddress)\<close>.\<close>

definition logActivity ::
  "state \<Rightarrow> nat \<Rightarrow> string \<Rightarrow> string option \<Rightarrow> nat option \<Rightarrow> string option \<Rightarrow> string option
     \<Rightarrow> state" where
  "logActivity st userId actionType resourceType resourceId details ipAddress =
     st\<lparr>activity_logs := activity_logs st @
          [\<lparr>a_user_id = userId, a_action_type = actionType, a_resource_type = resourceType,
            a_resource_id = resourceId, a_details = details, a_ip_address = ipAddress\<rparr>]\<rparr>"

section \<open>Token Authority (utils/jwt.js)\<close>

text \<open>The \<^verbatim>\<open>user\<close> object the token functions receive and return.\<close>

record user_info =
  i_id :: nat
  i_username :: string
  i_email :: string

definition generateAccessToken :: "lib \<Rightarrow> config \<Rightarrow> user_info \<Rightarrow> time \<Rightarrow> string" where
  "generateAccessToken L cfg user now =
     jwt_sign L (Access (i_id user) (i_username user) (i_email user))
       (jwt_secret cfg) (jwt_expiresIn cfg) now"

text \<open>
  \<^verbatim>\<open>generateRefreshToken(user)\<close>; \<open>rnd\<close> is what \<^verbatim>\<open>generateSecureToken(64)\<close> returned.
  The result is the pair \<^verbatim>\<open>{token, tokenHash}\<close>.
\<close>

definition generateRefreshToken ::
  "lib \<Rightarrow> config \<Rightarrow> user_info \<Rightarrow> string \<Rightarrow> time \<Rightarrow> string \<times> string" where
  "generateRefreshToken L cfg user rnd now =
     (let tokenHash = hashToken L rnd;
          jwtToken = jwt_sign L (Refresh (i_id user) tokenHash)
                       (jwt_secret cfg) (jwt_refreshExpiresIn cfg) now
      in (jwtToken, tokenHash))"

text \<open>
  \<^verbatim>\<open>verifyAccessToken(token)\<close>: \<open>Inr decoded\<close> for \<^verbatim>\<open>{valid: true, decoded}\<close> (the
  fields \<^verbatim>\<open>userId\<close>, \<^verbatim>\<open>username\<close>, \<^verbatim>\<open>email\<close> of the payload), \<open>Inl error\<close> for
  \<^verbatim>\<open>{valid: false, error}\<close>. A payload of the other type raises a plain \<^verbatim>\<open>Error\<close>,
  which the \<^verbatim>\<open>catch\<close> reports by its last branch.
\<close>

definition verifyAccessToken :: "lib \<Rightarrow> config \<Rightarrow> string \<Rightarrow> time \<Rightarrow> string + user_info" where
  "verifyAccessToken L cfg token now =
     (case jwt_verify L token (jwt_secret cfg) now of
        Inr (Access uid uname mail) \<Rightarrow>
          Inr \<lparr>i_id = uid, i_username = uname, i_email = mail\<rparr>
      | Inr (Refresh uid h) \<Rightarrow> Inl ''Gagal memverifikasi token''
      | Inl TokenExpiredError \<Rightarrow> Inl ''Token telah kadaluarsa''
      | Inl JsonWebTokenError \<Rightarrow> Inl ''Token tidak valid''
      | Inl NotBeforeError \<Rightarrow> Inl ''Gagal memverifikasi token'')"

text \<open>
  \<^verbatim>\<open>verifyRefreshToken(token)\<close>: \<open>Inr (userId, tokenHash)\<close> are the two fields of the
  decoded payload that the caller reads.
\<close>

definition verifyRefreshToken :: "lib \<Rightarrow> config \<Rightarrow> string \<Rightarrow> time \<Rightarrow> string + nat \<times> string" where
  "verifyRefreshToken L cfg token now =
     (case jwt_verify L token (jwt_secret cfg) now of
        Inr (Refresh uid h) \<Rightarrow> Inr (uid, h)
      | Inr (Access uid uname mail) \<Rightarrow> Inl ''Refresh token tidak valid''
      | Inl TokenExpiredError \<Rightarrow>
          Inl ''Refresh token telah kadaluarsa. Silakan login kembali.''
      | Inl _ \<Rightarrow> Inl ''Refresh token tidak valid'')"

text \<open>
  \<^verbatim>\<open>storeSession(userId, accessToken, refreshTokenHash, deviceInfo, ipAddress)\<close>: inserts a
  row and returns its id. \<^verbatim>\<open>expires_at\<close> is the ISO text of the token's expiry;
  \<^verbatim>\<open>last_activity\<close> and \<^verbatim>\<open>is_valid\<close> take the schema's defaults. Whatever is thrown
  inside the \<^verbatim>\<open>try\<close> (a token without expiry, an INSERT that the table rejects) is
  rethrown as the one error below, and nothing is inserted.
\<close>

definition storeSession ::
  "lib \<Rightarrow> state \<Rightarrow> nat \<Rightarrow> string \<Rightarrow> string \<Rightarrow> string option \<Rightarrow> string option \<Rightarrow> time
     \<Rightarrow> js_error + nat \<times> state" where
  "storeSession L st userId accessToken refreshTokenHash deviceInfo ipAddress now =
     (case jwt_decode_exp L accessToken of
        None \<Rightarrow> Inl (Error ''Gagal menyimpan session'')
      | Some expMs \<Rightarrow>
          let expiresAt = toISOString L expMs;
              tokenHash = hashToken L accessToken;
              rowid = Suc (session_seq st);
              row = \<lparr>s_id = rowid, s_user_id = userId, s_token_hash = tokenHash,
                     s_refresh_token_hash = Some refreshTokenHash, s_expires_at = expiresAt,
                     s_last_activity = now,
                     s_device_info =
                       (case deviceInfo of
                          None \<Rightarrow> None
                        | Some d \<Rightarrow> if d = [] then None else Some (JSON_stringify L (JStr d))),
                     s_ip_address = ipAddress, s_is_valid = True\<rparr>
          in if insert_rejected st row then Inl (Error ''Gagal menyimpan session'')
             else Inr (rowid, st\<lparr>sessions := sessions st @ [row], session_seq := rowid\<rparr>))"

text \<open>
  \<^verbatim>\<open>validateSession(token)\<close>: the first row of the join of \<^verbatim>\<open>sessions\<close> with \<^verbatim>\<open>users\<close>
  whose digest is the token's, that is valid, whose \<^verbatim>\<open>expires_at\<close> is greater, as text,
  than \<^verbatim>\<open>datetime('now')\<close>, and whose user is active; of the row returned, the columns of
  \<^verbatim>\<open>sessions\<close> are kept. When there is such a row the function goes on to the UPDATE of
  \<^verbatim>\<open>last_activity\<close>, which throws (see above), and the \<^verbatim>\<open>catch\<close> answers
  \<^verbatim>\<open>{valid: false, error: 'Gagal memvalidasi session'}\<close>.
\<close>

definition session_live :: "lib \<Rightarrow> state \<Rightarrow> string \<Rightarrow> time \<Rightarrow> session_row \<Rightarrow> bool" where
  "session_live L st tokenHash now s \<longleftrightarrow>
     s_token_hash s = tokenHash \<and> s_is_valid s
     \<and> text_less (sqlite_datetime L now) (s_expires_at s)
     \<and> list_ex (\<lambda>u. u_id u = s_user_id s \<and> u_is_active u) (users st)"

definition validateSession ::
  "lib \<Rightarrow> state \<Rightarrow> string \<Rightarrow> time \<Rightarrow> (string + session_row) \<times> state" where
  "validateSession L st token now =
     (let tokenHash = hashToken L token in
      case find (session_live L st tokenHash now) (sessions st) of
        None \<Rightarrow> (Inl ''Session tidak ditemukan atau telah kadaluarsa'', st)
      | Some session \<Rightarrow>
          (case executeUpdate_dq_now st
                  (\<lambda>st. st\<lparr>sessions :=
                            map (\<lambda>s. if s_id s = s_id session
                                      then s\<lparr>s_last_activity := now\<rparr> else s)
                              (sessions st)\<rparr>) of
             Inl e \<Rightarrow> (Inl ''Gagal memvalidasi session'', st)
           | Inr st' \<Rightarrow> (Inr session, st')))"

text \<open>\<^verbatim>\<open>invalidateSession(token)\<close>: returns \<^verbatim>\<open>result.changes > 0\<close>.\<close>

definition invalidateSession :: "lib \<Rightarrow> state \<Rightarrow> string \<Rightarrow> bool \<times> state" where
  "invalidateSession L st token =
     (let tokenHash = hashToken L token in
      (list_ex (\<lambda>s. s_token_hash s = tokenHash) (sessions st),
       st\<lparr>sessions :=
            map (\<lambda>s. if s_token_hash s = tokenHash then s\<lparr>s_is_valid := False\<rparr> else s)
              (sessions st)\<rparr>))"

text \<open>\<^verbatim>\<open>invalidateAllUserSessions(userId)\<close>: returns the number of rows changed.\<close>

definition invalidateAllUserSessions :: "state \<Rightarrow> nat \<Rightarrow> nat \<times> state" where
  "invalidateAllUserSessions st userId =
     (length (filter (\<lambda>s. s_user_id s = userId \<and> s_is_valid s) (sessions st)),
      st\<lparr>sessions :=
           map (\<lambda>s. if s_user_id s = userId \<and> s_is_valid s then s\<lparr>s_is_valid := False\<rparr> else s)
             (sessions st)\<rparr>)"

text \<open>
  \<^verbatim>\<open>cleanExpiredSessions()\<close>: returns the number of rows deleted. The test
  \<^verbatim>\<open>expires_at < datetime('now')\<close> compares text.
\<close>

definition cleanExpiredSessions :: "lib \<Rightarrow> state \<Rightarrow> time \<Rightarrow> nat \<times> state" where
  "cleanExpiredSessions L st now =
     (length (filter (\<lambda>s. text_less (s_expires_at s) (sqlite_datetime L now) \<or> \<not> s_is_valid s)
                (sessions st)),
      st\<lparr>sessions :=
           filter (\<lambda>s. \<not> (text_less (s_expires_at s) (sqlite_datetime L now) \<or> \<not> s_is_valid s))
             (sessions st)\<rparr>)"

text \<open>
  \<^verbatim>\<open>refreshAccessToken(refreshToken)\<close>: \<open>Inl error\<close> for \<^verbatim>\<open>{success: false, error}\<close>,
  \<open>Inr (accessToken, user)\<close> for success. Seven days are 604800000 ms. The UPDATE is
  rejected when another row holds the new digest (\<^verbatim>\<open>token_hash\<close> is UNIQUE); the
  \<^verbatim>\<open>catch\<close> then answers the last error, and the table is as before.
\<close>

definition refreshAccessToken ::
  "lib \<Rightarrow> config \<Rightarrow> state \<Rightarrow> string \<Rightarrow> time \<Rightarrow> (string + string \<times> user_info) \<times> state" where
  "refreshAccessToken L cfg st refreshToken now =
     (case verifyRefreshToken L cfg refreshToken now of
        Inl error \<Rightarrow> (Inl error, st)
      | Inr (userId, tokenHash) \<Rightarrow>
          (case find (\<lambda>s. s_refresh_token_hash s = Some tokenHash \<and> s_is_valid s)
                  (sessions st) of
             None \<Rightarrow> (Inl ''Refresh token tidak valid atau telah dicabut'', st)
           | Some session \<Rightarrow>
               (case find (\<lambda>u. u_id u = userId \<and> u_is_active u) (users st) of
                  None \<Rightarrow> (Inl ''User tidak ditemukan atau tidak aktif'', st)
                | Some user \<Rightarrow>
                    let info = \<lparr>i_id = u_id user, i_username = u_username user,
                                 i_email = u_email user\<rparr>;
                        newAccessToken = generateAccessToken L cfg info now;
                        newTokenHash = hashToken L newAccessToken
                    in if token_hash_taken st (s_id session) newTokenHash
                       then (Inl ''Gagal memperbarui token'', st)
                       else
                         (Inr (newAccessToken, info),
                          st\<lparr>sessions :=
                               map (\<lambda>s. if s_id s = s_id session
                                         then s\<lparr>s_token_hash := newTokenHash,
                                                s_expires_at :=
                                                  sqlite_datetime L (now + 604800000)\<rparr>
                                         else s)
                                 (sessions st)\<rparr>))))"

section \<open>Authentication middleware (middleware/auth.js)\<close>

text \<open>
  \<^verbatim>\<open>authHeader && authHeader.split(' ')[1]\<close>, \<open>None\<close> when the result is falsy
  (no header, no second part, or an empty one).
\<close>

definition bearer_token :: "string option \<Rightarrow> string option" where
  "bearer_token authHeader =
     (case authHeader of
        None \<Rightarrow> None
      | Some h \<Rightarrow>
          if h = [] then None
          else (case nth_opt (split_on CHR '' '' h) 1 of
                  None \<Rightarrow> None
                | Some token \<Rightarrow> if token = [] then None else Some token))"

text \<open>
  The middleware either answers itself (\<open>Rejected status error\<close>) or calls \<^verbatim>\<open>next()\<close>
  with \<^verbatim>\<open>req.user\<close> and \<^verbatim>\<open>req.session\<close> set (\<open>Passed\<close>).
\<close>

datatype auth_outcome =
    Rejected nat string
  | Passed user_info session_row

definition authenticateToken ::
  "lib \<Rightarrow> config \<Rightarrow> state \<Rightarrow> string option \<Rightarrow> time \<Rightarrow> auth_outcome \<times> state" where
  "authenticateToken L cfg st authHeader now =
     (case bearer_token authHeader of
        None \<Rightarrow>
          (Rejected 401
             ''Token autentikasi tidak ditemukan. Silakan login terlebih dahulu.'', st)
      | Some token \<Rightarrow>
          (case verifyAccessToken L cfg token now of
             Inl error \<Rightarrow> (Rejected 401 error, st)
           | Inr decoded \<Rightarrow>
               (case validateSession L st token now of
                  (Inl error, st') \<Rightarrow> (Rejected 401 error, st')
                | (Inr session, st') \<Rightarrow> (Passed decoded session, st'))))"

section \<open>Login and the lockout policy (controllers/authController.js)\<close>

text \<open>
  \<^verbatim>\<open>sanitizeInput(input)\<close> on a string: \<^verbatim>\<open>trim()\<close>, removal of \<^verbatim>\<open><\<close> and \<^verbatim>\<open>>\<close>, and
  the first 1000 characters. Of the white space and line terminators that \<^verbatim>\<open>trim()\<close>
  removes, those below 256 are TAB, LF, VT, FF, CR, the space and the no-break space
  U+00A0.
\<close>

definition is_space :: "char \<Rightarrow> bool" where
  "is_space c \<longleftrightarrow> of_char c \<in> {9, 10, 11, 12, 13, 32, 160 :: nat}"

definition trim :: "string \<Rightarrow> string" where
  "trim s = rev (dropWhile is_space (rev (dropWhile is_space s)))"

definition sanitizeInput :: "string \<Rightarrow> string" where
  "sanitizeInput input =
     take 1000 (filter (\<lambda>c. c \<noteq> CHR ''<'' \<and> c \<noteq> CHR ''>'') (trim input))"

text \<open>
  The body of a login request (an absent field is the empty string, which the code
  treats alike) with the two request attributes the handler reads.
\<close>

record login_request =
  req_identifier :: string
  req_password :: string
  req_user_agent :: "string option"
  req_ip :: "string option"

text \<open>
  The answers of \<^verbatim>\<open>login\<close>, by their HTTP status: 400 for \<open>MissingFields\<close>, 401 for
  \<open>InvalidCredentials\<close> and for \<open>WrongPassword n\<close> (\<open>n\<close> is the number the message
  shows, \<^verbatim>\<open>Percobaan ke-n dari 5\<close>), 403 for \<open>AccountDeactivated\<close> and for
  \<open>AccountLocked m\<close> (\<open>m\<close> is the number of minutes the message tells the caller to
  wait), 500 for \<open>ServerError\<close>, 200 for \<open>LoginOk user lastLogin accessToken refreshToken\<close>.
\<close>

datatype login_reply =
    MissingFields
  | InvalidCredentials
  | AccountDeactivated
  | AccountLocked int
  | WrongPassword int
  | ServerError
  | LoginOk user_info "time option" string string

fun http_status :: "login_reply \<Rightarrow> nat" where
  "http_status MissingFields = 400"
| "http_status InvalidCredentials = 401"
| "http_status AccountDeactivated = 403"
| "http_status (AccountLocked m) = 403"
| "http_status (WrongPassword n) = 401"
| "http_status ServerError = 500"
| "http_status (LoginOk u l a r) = 200"

text \<open>
  \<^verbatim>\<open>user.locked_until && new Date(user.locked_until) > new Date()\<close>: the unlock time
  when the test holds.
\<close>

definition account_locked :: "user_row \<Rightarrow> time \<Rightarrow> time option" where
  "account_locked user now =
     (case u_locked_until user of
        None \<Rightarrow> None
      | Some unlockTime \<Rightarrow> if unlockTime > now then Some unlockTime else None)"

text \<open>\<^verbatim>\<open>Math.ceil((unlockTime - new Date()) / 60000)\<close>.\<close>

definition minutes_left :: "time \<Rightarrow> time \<Rightarrow> int" where
  "minutes_left unlockTime now = - ((- (unlockTime - now)) div 60000)"

text \<open>\<^verbatim>\<open>UPDATE users SET ... WHERE id = ?\<close>.\<close>

definition update_user :: "state \<Rightarrow> nat \<Rightarrow> (user_row \<Rightarrow> user_row) \<Rightarrow> state" where
  "update_user st uid f =
     st\<lparr>users := map (\<lambda>u. if u_id u = uid then f u else u) (users st)\<rparr>"

text \<open>
  \<^verbatim>\<open>getOne('SELECT * FROM users WHERE username = ? OR email = ?', ...)\<close>.
\<close>

definition find_user :: "state \<Rightarrow> string \<Rightarrow> user_row option" where
  "find_user st ident = find (\<lambda>u. u_username u = ident \<or> u_email u = ident) (users st)"

text \<open>
  \<^verbatim>\<open>login(req, res)\<close>. \<open>rnd\<close> is the random token drawn for the refresh token, \<open>now\<close>
  the clock at the request. The reply and the new state are returned. After a password
  that verifies, the first statement is the UPDATE that resets the counter and writes
  \<^verbatim>\<open>last_login = datetime("now")\<close>; it throws (see above), so the handler's \<^verbatim>\<open>catch\<close>
  answers 500 and nothing is written. An error of \<^verbatim>\<open>storeSession\<close> is answered by the
  same \<^verbatim>\<open>catch\<close>.
\<close>

definition login ::
  "lib \<Rightarrow> config \<Rightarrow> state \<Rightarrow> login_request \<Rightarrow> string \<Rightarrow> time \<Rightarrow> login_reply \<times> state" where
  "login L cfg st req rnd now =
     (if req_identifier req = [] \<or> req_password req = [] then (MissingFields, st)
      else
        let cleanIdentifier = sanitizeInput (req_identifier req) in
        case find_user st cleanIdentifier of
          None \<Rightarrow> (InvalidCredentials, st)
        | Some user \<Rightarrow>
            if \<not> u_is_active user then (AccountDeactivated, st)
            else
            case account_locked user now of
              Some unlockTime \<Rightarrow> (AccountLocked (minutes_left unlockTime now), st)
            | None \<Rightarrow>
              let st1 = st\<lparr>hasher_calls :=
                            hasher_calls st @ [(req_password req, u_password_hash user)]\<rparr>
              in
              case verifyPassword L (req_password req) (u_password_hash user) of
                Inl e \<Rightarrow> (ServerError, st1)
              | Inr isPasswordValid \<Rightarrow>
                  if \<not> isPasswordValid
                  then
                    let newAttempts = u_login_attempts user + 1;
                        st2 =
                          (if newAttempts \<ge> 5
                           then update_user st1 (u_id user)
                                  (\<lambda>u. u\<lparr>u_login_attempts := newAttempts,
                                         u_locked_until := Some (now + 30 * 60000)\<rparr>)
                           else update_user st1 (u_id user)
                                  (\<lambda>u. u\<lparr>u_login_attempts := newAttempts\<rparr>));
                        st3 = logActivity st2 (u_id user) ''login_failed'' (Some ''user'')
                                (Some (u_id user)) (Some ''Percobaan login gagal'') (req_ip req)
                    in (WrongPassword newAttempts, st3)
                  else
                    (case executeUpdate_dq_now st1
                            (\<lambda>st. update_user st (u_id user)
                                     (\<lambda>u. u\<lparr>u_login_attempts := 0, u_locked_until := None,
                                            u_last_login := Some now\<rparr>)) of
                       Inl e \<Rightarrow> (ServerError, st1)
                     | Inr st2 \<Rightarrow>
                         let userData = \<lparr>i_id = u_id user, i_username = u_username user,
                                          i_email = u_email user\<rparr>;
                             accessToken = generateAccessToken L cfg userData now;
                             refreshTokenData = generateRefreshToken L cfg userData rnd now
                         in (case storeSession L st2 (u_id user) accessToken
                                    (snd refreshTokenData) (req_user_agent req) (req_ip req)
                                    now of
                               Inl e \<Rightarrow> (ServerError, st2)
                             | Inr (sid, st3) \<Rightarrow>
                                 let st4 = logActivity st3 (u_id user) ''login'' (Some ''user'')
                                             (Some (u_id user)) (Some ''Login berhasil'')
                                             (req_ip req)
                                 in (LoginOk userData (u_last_login user) accessToken
                                       (fst refreshTokenData), st4))))"

text \<open>
  A run of login requests, each with the random token drawn for it and the time it
  arrives; the replies are returned in order.
\<close>

fun logins ::
  "lib \<Rightarrow> config \<Rightarrow> state \<Rightarrow> (login_request \<times> string \<times> time) list
     \<Rightarrow> login_reply list \<times> state" where
  "logins L cfg st [] = ([], st)"
| "logins L cfg st ((req, rnd, now) # rest) =
     (let (reply, st') = login L cfg st req rnd now;
          (replies, st'') = logins L cfg st' rest
      in (reply # replies, st''))"

section \<open>Vault Codec (utils/encryption.js, controllers/exportController.js)\<close>


text \<open>
  \<^verbatim>\<open>value.name\<close> for the field names the code reads: \<open>None\<close> is \<^verbatim>\<open>undefined\<close>. (On
  \<^verbatim>\<open>null\<close> the access throws; the callers below test for it first. An object that
  \<^verbatim>\<open>JSON.parse\<close> returns has no name twice.)
\<close>

fun get_prop :: "json \<Rightarrow> string \<Rightarrow> json option" where
  "get_prop (JObj kvs) name = map_of kvs name"
| "get_prop v name = None"


text \<open>\<^verbatim>\<open>customKey || config.encryption.exportKey\<close>.\<close>

definition export_key :: "config \<Rightarrow> string option \<Rightarrow> string" where
  "export_key cfg customKey =
     (case customKey of
        None \<Rightarrow> exportKey cfg
      | Some k \<Rightarrow> if k = [] then exportKey cfg else k)"

text \<open>The object literal \<^verbatim>\<open>exportPackage\<close> of \<^verbatim>\<open>encryptExportData\<close>.\<close>

definition exportPackage :: "lib \<Rightarrow> string \<Rightarrow> time \<Rightarrow> json" where
  "exportPackage L encrypted now =
     JObj [(''version'', JStr ''1.0''),
           (''timestamp'', JStr (toISOString L now)),
           (''data'', JStr encrypted)]"

text \<open>
  \<^verbatim>\<open>encryptExportData(data, customKey)\<close>; \<open>salt\<close> is the salt crypto-js draws, \<open>now\<close>
  the clock.
\<close>

definition encryptExportData ::
  "lib \<Rightarrow> config \<Rightarrow> json \<Rightarrow> string option \<Rightarrow> bytes \<Rightarrow> time \<Rightarrow> js_error + string" where
  "encryptExportData L cfg data customKey salt now =
     (let key = export_key cfg customKey;
          encrypted = CryptoJS_AES_encrypt L (JSON_stringify L data) key salt
      in Inr (JSON_stringify L (exportPackage L encrypted now)))"





section \<open>Notions used in the statements\<close>

text \<open>
  A login request for the identity \<open>ident\<close> whose non-empty password the hasher does
  not accept for the user's digest.
\<close>

definition wrong_password_request :: "lib \<Rightarrow> user_row \<Rightarrow> string \<Rightarrow> login_request \<Rightarrow> bool" where
  "wrong_password_request L u ident r \<longleftrightarrow>
     req_identifier r = ident \<and> req_password r \<noteq> []
     \<and> verifyPassword L (req_password r) (u_password_hash u) = Inr False"

text \<open>What the failure branch of \<^verbatim>\<open>login\<close> writes to the user's row.\<close>

definition failed_update :: "time \<Rightarrow> user_row \<Rightarrow> user_row" where
  "failed_update now u =
     (if u_login_attempts u + 1 \<ge> 5
      then u\<lparr>u_login_attempts := u_login_attempts u + 1,
             u_locked_until := Some (now + 1800000)\<rparr>
      else u\<lparr>u_login_attempts := u_login_attempts u + 1\<rparr>)"

text \<open>The field names of a document, in order.\<close>

definition json_fields :: "json \<Rightarrow> string list" where
  "json_fields v = (case v of JObj kvs \<Rightarrow> map fst kvs | _ \<Rightarrow> [])"

text \<open>
  The answers of \<^verbatim>\<open>refreshAccessToken\<close> on failure: three say that the refresh token is
  not (or no longer) valid, one that its owner is not an active user, and one, from the
  \<^verbatim>\<open>catch\<close>, that the refresh could not be done.
\<close>

definition refresh_token_invalid :: "string set" where
  "refresh_token_invalid =
     {''Refresh token telah kadaluarsa. Silakan login kembali.'',
      ''Refresh token tidak valid'',
      ''Refresh token tidak valid atau telah dicabut''}"

definition owner_inactive :: string where
  "owner_inactive = ''User tidak ditemukan atau tidak aktif''"

definition refresh_failed :: string where
  "refresh_failed = ''Gagal memperbarui token''"

text \<open>The row update of a successful refresh.\<close>

definition refreshed :: "lib \<Rightarrow> nat \<Rightarrow> string \<Rightarrow> time \<Rightarrow> session_row \<Rightarrow> session_row" where
  "refreshed L sid newTokenHash now s =
     (if s_id s = sid
      then s\<lparr>s_token_hash := newTokenHash,
             s_expires_at := sqlite_datetime L (now + 604800000)\<rparr>
      else s)"

text \<open>No valid session row carries the digest of the token.\<close>

definition revoked :: "lib \<Rightarrow> string \<Rightarrow> state \<Rightarrow> bool" where
  "revoked L token st \<longleftrightarrow>
     list_all (\<lambda>s. s_token_hash s = hashToken L token \<longrightarrow> \<not> s_is_valid s) (sessions st)"

text \<open>The error of \<^verbatim>\<open>validateSession\<close> when no live session matches.\<close>

definition session_revoked_error :: string where
  "session_revoked_error = ''Session tidak ditemukan atau telah kadaluarsa''"





section \<open>Runs of the Token Authority\<close>

text \<open>
  The calls that write the \<^verbatim>\<open>sessions\<close> table are the exported functions of
  \<^verbatim>\<open>utils/jwt.js\<close>; the controllers (register, login, logout, logout-all, refresh) and
  the hourly clean-up reach the table only through them. A run is a list of such calls,
  each with the time it is made at. \<open>OtherWrites\<close> stands for any write outside
  the \<^verbatim>\<open>sessions\<close> table in between (a registration, a login counter, a deactivation,
  a log entry).
\<close>

datatype ta_op =
    StoreSession nat string string "string option" "string option"
  | ValidateSession string
  | InvalidateSession string
  | InvalidateAllUserSessions nat
  | CleanExpiredSessions
  | RefreshAccessToken string
  | OtherWrites "user_row list" "activity_row list" "(string \<times> string) list"

fun ta_step :: "lib \<Rightarrow> config \<Rightarrow> state \<Rightarrow> ta_op \<times> time \<Rightarrow> state" where
  "ta_step L cfg st (StoreSession userId accessToken refreshTokenHash deviceInfo ipAddress, now) =
     (case storeSession L st userId accessToken refreshTokenHash deviceInfo ipAddress now of
        Inl e \<Rightarrow> st
      | Inr (rowid, st') \<Rightarrow> st')"
| "ta_step L cfg st (ValidateSession token, now) = snd (validateSession L st token now)"
| "ta_step L cfg st (InvalidateSession token, now) = snd (invalidateSession L st token)"
| "ta_step L cfg st (InvalidateAllUserSessions userId, now) =
     snd (invalidateAllUserSessions st userId)"
| "ta_step L cfg st (CleanExpiredSessions, now) = snd (cleanExpiredSessions L st now)"
| "ta_step L cfg st (RefreshAccessToken refreshToken, now) =
     snd (refreshAccessToken L cfg st refreshToken now)"
| "ta_step L cfg st (OtherWrites us logs calls, now) =
     st\<lparr>users := us, activity_logs := logs, hasher_calls := calls\<rparr>"

fun ta_run :: "lib \<Rightarrow> config \<Rightarrow> state \<Rightarrow> (ta_op \<times> time) list \<Rightarrow> state" where
  "ta_run L cfg st [] = st"
| "ta_run L cfg st (x # xs) = ta_run L cfg (ta_step L cfg st x) xs"

text \<open>The access tokens whose digest a call writes, or tries to write, into the table.\<close>

fun issued :: "lib \<Rightarrow> config \<Rightarrow> state \<Rightarrow> ta_op \<times> time \<Rightarrow> string list" where
  "issued L cfg st (StoreSession userId accessToken refreshTokenHash deviceInfo ipAddress, now) =
     [accessToken]"
| "issued L cfg st (RefreshAccessToken refreshToken, now) =
     (case fst (refreshAccessToken L cfg st refreshToken now) of
        Inr (newAccessToken, info) \<Rightarrow> [newAccessToken]
      | Inl e \<Rightarrow> [])"
| "issued L cfg st (other, now) = []"

fun issued_in_run :: "lib \<Rightarrow> config \<Rightarrow> state \<Rightarrow> (ta_op \<times> time) list \<Rightarrow> string list" where
  "issued_in_run L cfg st [] = []"
| "issued_in_run L cfg st (x # xs) =
     issued L cfg st x @ issued_in_run L cfg (ta_step L cfg st x) xs"

section \<open>A concrete instance of the libraries\<close>

text \<open>
  A small stand-in for the libraries, used only to evaluate the model on concrete
  inputs. Its AES adds one to every byte; its bcrypt digest is \<^verbatim>\<open>$2b$\<close> followed by the
  password, and comparing against a digest without that prefix throws; its SHA-256 prefixes a
  \<^verbatim>\<open>#\<close>; its JWT is the list of the payload's fields with the secret and the time of
  issue in whole seconds (\<^verbatim>\<open>iat\<close>, in unary like the user id), so that, as with
  jsonwebtoken, two tokens signed for the same payload within one second are the same
  string; they never fail to verify, and an access token carries an expiry seven days
  after its issue;
  its crypto-js tags the text with the passphrase and decrypts to nothing under another
  one; its JSON printer writes no escapes and numbers in unary, and its parser knows the
  two documents of the example below. Its two date printers are the real ones, for the
  years 0000 to 9999.
\<close>

definition byte_of_char :: "char \<Rightarrow> byte" where
  "byte_of_char c = word_of_nat (of_char c)"

definition char_of_byte :: "byte \<Rightarrow> char" where
  "char_of_byte b = char_of (unat b)"

definition sample_aes_encrypt :: "bytes \<Rightarrow> bytes \<Rightarrow> string \<Rightarrow> bytes" where
  "sample_aes_encrypt key iv txt = map (\<lambda>c. byte_of_char c + 1) txt"

definition sample_aes_decrypt :: "bytes \<Rightarrow> bytes \<Rightarrow> bytes \<Rightarrow> string option" where
  "sample_aes_decrypt key iv ct = Some (map (\<lambda>b. char_of_byte (b - 1)) ct)"

definition sample_bcrypt_compare :: "string \<Rightarrow> string \<Rightarrow> bool option" where
  "sample_bcrypt_compare s d =
     (if take 4 d = ''$2b$'' then Some (drop 4 d = s) else None)"

definition sample_jwt_sign :: "jwt_payload \<Rightarrow> string \<Rightarrow> string \<Rightarrow> time \<Rightarrow> string" where
  "sample_jwt_sign p secret expiresIn now =
     (case p of
        Access uid uname mail \<Rightarrow>
          ''A:'' @ secret @ '':'' @ replicate uid CHR ''i'' @ '':'' @ uname @ '':'' @ mail
            @ '':'' @ replicate (nat (now div 1000)) CHR ''s''
      | Refresh uid h \<Rightarrow>
          ''R:'' @ secret @ '':'' @ replicate uid CHR ''i'' @ '':'' @ h
            @ '':'' @ replicate (nat (now div 1000)) CHR ''s'')"

definition sample_jwt_verify :: "string \<Rightarrow> string \<Rightarrow> time \<Rightarrow> jwt_error + jwt_payload" where
  "sample_jwt_verify token secret now =
     (let parts = split_on CHR '':'' token in
      if length parts = 6 \<and> parts ! 0 = ''A'' \<and> parts ! 1 = secret
      then Inr (Access (length (parts ! 2)) (parts ! 3) (parts ! 4))
      else if length parts = 5 \<and> parts ! 0 = ''R'' \<and> parts ! 1 = secret
      then Inr (Refresh (length (parts ! 2)) (parts ! 3))
      else Inl JsonWebTokenError)"

definition sample_jwt_decode_exp :: "string \<Rightarrow> time option" where
  "sample_jwt_decode_exp token =
     (let parts = split_on CHR '':'' token in
      if length parts = 6 \<and> parts ! 0 = ''A''
      then Some ((int (length (parts ! 5)) + 604800) * 1000)
      else None)"

text \<open>
  The civil date of a day number (days since 1970-01-01), and the two printers:
  \<^verbatim>\<open>Date.prototype.toISOString\<close> and SQLite's \<^verbatim>\<open>datetime\<close>, which drops the
  milliseconds.
\<close>

definition civil_from_days :: "int \<Rightarrow> int \<times> int \<times> int" where
  "civil_from_days z =
     (let z1 = z + 719468;
          era = z1 div 146097;
          doe = z1 mod 146097;
          yoe = (doe - doe div 1460 + doe div 36524 - doe div 146096) div 365;
          doy = doe - (365 * yoe + yoe div 4 - yoe div 100);
          mp = (5 * doy + 2) div 153;
          d = doy - (153 * mp + 2) div 5 + 1;
          m = (if mp < 10 then mp + 3 else mp - 9);
          y = yoe + era * 400 + (if m \<le> 2 then 1 else 0)
      in (y, m, d))"

definition pad1 :: "int \<Rightarrow> char" where
  "pad1 n = hex_digit (nat (n mod 10))"

definition pad2 :: "int \<Rightarrow> string" where
  "pad2 n = [pad1 (n div 10), pad1 n]"

definition pad3 :: "int \<Rightarrow> string" where
  "pad3 n = pad1 (n div 100) # pad2 n"

definition pad4 :: "int \<Rightarrow> string" where
  "pad4 n = pad1 (n div 1000) # pad3 n"

definition sample_date :: "time \<Rightarrow> string" where
  "sample_date t =
     (case civil_from_days (t div 86400000) of
        (y, m, d) \<Rightarrow> pad4 y @ ''-'' @ pad2 m @ ''-'' @ pad2 d)"

definition sample_clock :: "time \<Rightarrow> string" where
  "sample_clock t =
     (let s = t mod 86400000 div 1000
      in pad2 (s div 3600) @ '':'' @ pad2 (s div 60 mod 60) @ '':'' @ pad2 (s mod 60))"

definition sample_toISOString :: "time \<Rightarrow> string" where
  "sample_toISOString t =
     sample_date t @ ''T'' @ sample_clock t @ ''.'' @ pad3 (t mod 1000) @ ''Z''"

definition sample_datetime :: "time \<Rightarrow> string" where
  "sample_datetime t = sample_date t @ '' '' @ sample_clock t"

definition sample_cryptojs_encrypt :: "string \<Rightarrow> string \<Rightarrow> bytes \<Rightarrow> string" where
  "sample_cryptojs_encrypt txt passphrase salt =
     ''U2FsdGVkX1'' @ to_hex (map byte_of_char passphrase) @ '':'' @ txt"

definition sample_cryptojs_decrypt :: "json \<Rightarrow> string \<Rightarrow> bytes option" where
  "sample_cryptojs_decrypt c passphrase =
     (case c of
        JStr ct \<Rightarrow>
          (let rest = drop 10 ct;
               tag = takeWhile (\<lambda>x. x \<noteq> CHR '':'') rest;
               body = tl (dropWhile (\<lambda>x. x \<noteq> CHR '':'') rest)
           in if from_hex tag = map byte_of_char passphrase
              then Some (map byte_of_char body)
              else Some [])
      | _ \<Rightarrow> None)"

definition sample_enc_utf8 :: "bytes \<Rightarrow> string option" where
  "sample_enc_utf8 bs = Some (map char_of_byte bs)"

fun join :: "string \<Rightarrow> string list \<Rightarrow> string" where
  "join sep [] = []"
| "join sep [x] = x"
| "join sep (x # y # ys) = x @ sep @ join sep (y # ys)"

fun sample_stringify :: "json \<Rightarrow> string" where
  "sample_stringify JNull = ''null''"
| "sample_stringify (JBool b) = (if b then ''true'' else ''false'')"
| "sample_stringify (JNum n) = (if n < 0 then ''-'' else []) @ replicate (nat \<bar>n\<bar>) CHR ''1''"
| "sample_stringify (JStr s) = ''\"'' @ s @ ''\"''"
| "sample_stringify (JArr xs) = ''['' @ join '','' (map sample_stringify xs) @ '']''"
| "sample_stringify (JObj kvs) =
     ''{'' @ join '','' (map (\<lambda>kv. ''\"'' @ fst kv @ ''\":'' @ sample_stringify (snd kv)) kvs)
       @ ''}''"

definition sample_accounts :: "json list" where
  "sample_accounts =
     [JObj [(''siteName'', JStr ''Gmail''), (''password'', JStr ''hunter2''),
            (''notes'', JNull), (''isFavorite'', JBool True)]]"

definition sample_data :: json where
  "sample_data =
     JObj [(''version'', JStr ''1.0''),
           (''exportedAt'', JStr ''1970-01-01T00:00:00.000Z''),
           (''exportedBy'', JStr ''alice''),
           (''totalAccounts'', JNum 1),
           (''accounts'', JArr sample_accounts)]"

definition sample_package :: json where
  "sample_package =
     JObj [(''version'', JStr ''1.0''),
           (''timestamp'', JStr ''1970-01-01T00:00:00.000Z''),
           (''data'', JStr (sample_cryptojs_encrypt (sample_stringify sample_data)
                              ''correct horse'' []))]"

definition sample_parse :: "string \<Rightarrow> json option" where
  "sample_parse s =
     (if s = sample_stringify sample_package then Some sample_package
      else if s = sample_stringify sample_data then Some sample_data
      else None)"

definition sample_lib :: lib where
  "sample_lib = \<lparr>
     aes_256_cbc_encrypt = sample_aes_encrypt,
     aes_256_cbc_decrypt = sample_aes_decrypt,
     bcrypt_compare = sample_bcrypt_compare,
     sha256_hex = (\<lambda>t. CHR ''#'' # t),
     jwt_sign = sample_jwt_sign,
     jwt_verify = sample_jwt_verify,
     jwt_decode_exp = sample_jwt_decode_exp,
     CryptoJS_AES_encrypt = sample_cryptojs_encrypt,
     CryptoJS_AES_decrypt = sample_cryptojs_decrypt,
     CryptoJS_enc_Utf8 = sample_enc_utf8,
     JSON_stringify = sample_stringify,
     JSON_parse = sample_parse,
     toISOString = sample_toISOString,
     sqlite_datetime = sample_datetime
   \<rparr>"

definition sample_config :: config where
  "sample_config = \<lparr>
     aesKey = ''000102030405060708090a0b0c0d0e0f101112131415161718191a1b1c1d1e1f'',
     exportKey = ''server-export-key'',
     jwt_secret = ''jwt-secret'',
     jwt_expiresIn = ''7d'',
     jwt_refreshExpiresIn = ''30d''
   \<rparr>"

definition sample_iv :: bytes where
  "sample_iv = [1, 2, 3, 4, 5, 6, 7, 8, 9, 10, 11, 12, 13, 14, 15, 16]"

definition sample_iv2 :: bytes where
  "sample_iv2 = [255, 2, 3, 4, 5, 6, 7, 8, 9, 10, 11, 12, 13, 14, 15, 16]"

text \<open>
  A store with one user, \<^verbatim>\<open>alice\<close>, whose password is \<^verbatim>\<open>Secret123!\<close>, and one live
  session of hers, as \<^verbatim>\<open>storeSession\<close> writes it at time 5000 for the two tokens signed
  then: the access token expires seven days later.
\<close>

definition alice :: user_row where
  "alice = \<lparr>u_id = 1, u_username = ''alice'', u_email = ''alice@example.com'',
            u_password_hash = ''$2b$Secret123!'', u_last_login = None,
            u_login_attempts = 0, u_locked_until = None, u_is_active = True\<rparr>"

definition alice_info :: user_info where
  "alice_info = \<lparr>i_id = 1, i_username = ''alice'', i_email = ''alice@example.com''\<rparr>"

definition alice_access :: string where
  "alice_access = ''A:jwt-secret:i:alice:alice@example.com:sssss''"

definition alice_refresh :: string where
  "alice_refresh = ''R:jwt-secret:i:#r4nd0m:sssss''"

definition alice_session :: session_row where
  "alice_session = \<lparr>s_id = 1, s_user_id = 1,
            s_token_hash = ''#A:jwt-secret:i:alice:alice@example.com:sssss'',
            s_refresh_token_hash = Some ''#r4nd0m'',
            s_expires_at = ''1970-01-08T00:00:05.000Z'',
            s_last_activity = 5000, s_device_info = None, s_ip_address = None,
            s_is_valid = True\<rparr>"

definition sample_state :: state where
  "sample_state = \<lparr>users = [alice], sessions = [alice_session], session_seq = 1,
                    activity_logs = [], hasher_calls = []\<rparr>"

text \<open>
  Requests used in the examples: a wrong guess for \<^verbatim>\<open>alice\<close>, and her row and the
  store after five failures that ended at time 5000.
\<close>

definition guess :: login_request where
  "guess = \<lparr>req_identifier = ''alice'', req_password = ''guess'',
             req_user_agent = None, req_ip = None\<rparr>"

definition alice_locked :: user_row where
  "alice_locked = alice\<lparr>u_login_attempts := 5, u_locked_until := Some 1805000\<rparr>"

definition locked_state :: state where
  "locked_state = sample_state\<lparr>users := [alice_locked]\<rparr>"




text \<open>
  A run used in the examples: after the logout, a refresh attempt, the registration of a
  second user, \<^verbatim>\<open>bob\<close>, and the session stored for him, a request with the revoked
  token, and the clean-up job.
\<close>

definition bob :: user_row where
  "bob = \<lparr>u_id = 2, u_username = ''bob'', u_email = ''bob@example.com'',
          u_password_hash = ''$2b$Hunter2hunter2!'', u_last_login = None,
          u_login_attempts = 0, u_locked_until = None, u_is_active = True\<rparr>"

definition sample_run :: "(ta_op \<times> time) list" where
  "sample_run =
     [(RefreshAccessToken alice_refresh, 6000),
      (OtherWrites [alice, bob] [] [], 6200),
      (StoreSession 2 ''A:jwt-secret:ii:bob:bob@example.com:ssssss'' ''#b0b'' None None, 6500),
      (ValidateSession alice_access, 7000),
      (CleanExpiredSessions, 8000)]"

section \<open>Lemmas on the wire format\<close>

lemma hex_val_digit_all: "list_all (\<lambda>n. hex_val (hex_digit n) = Some n) [0..<16]"
  by code_simp

lemma hex_val_digit: "n < 16 \<Longrightarrow> hex_val (hex_digit n) = Some n"
  using hex_val_digit_all by (simp add: list_all_iff)

lemma hex_digit_not_colon_all: "list_all (\<lambda>n. hex_digit n \<noteq> CHR '':'') [0..<16]"
  by code_simp

lemma hex_digit_not_colon: "n < 16 \<Longrightarrow> hex_digit n \<noteq> CHR '':''"
  using hex_digit_not_colon_all by (simp add: list_all_iff)

lemma byte_nibbles: "unat (b :: byte) div 16 < 16" "unat b mod 16 < 16"
proof -
  have "unat b < 2 ^ LENGTH(8)" by (rule unsigned_less)
  then show "unat b div 16 < 16" by simp
  show "unat b mod 16 < 16" by simp
qed

lemma from_to_hex: "from_hex (to_hex bs) = bs"
proof (induction bs)
  case Nil
  show ?case by simp
next
  case (Cons b bs)
  have "word_of_nat (16 * (unat b div 16) + unat b mod 16) = b"
    by simp
  with Cons show ?case
    by (simp add: hex_val_digit byte_nibbles)
qed

lemma to_hex_no_colon: "CHR '':'' \<notin> set (to_hex bs)"
proof (induction bs)
  case Nil
  show ?case by simp
next
  case (Cons b bs)
  have "hex_digit (unat b div 16) \<noteq> CHR '':''" "hex_digit (unat b mod 16) \<noteq> CHR '':''"
    by (simp_all add: hex_digit_not_colon byte_nibbles)
  with Cons show ?case by auto
qed

lemma length_to_hex: "length (to_hex bs) = 2 * length bs"
  by (induction bs) auto

lemma split_on_nonempty: "split_on sep s \<noteq> []"
  by (induction s) (auto split: list.splits)

lemma split_on_field:
  "sep \<notin> set a \<Longrightarrow> sep \<notin> set b \<Longrightarrow> split_on sep (a @ sep # b) = [a, b]"
proof (induction a)
  case Nil
  have "split_on sep b = [b]" using Nil(2)
    by (induction b) (auto split: list.splits)
  then show ?case by simp
next
  case (Cons c a)
  then show ?case by auto
qed

lemma decrypt_of_field:
  assumes "cipher_params_ok (from_hex (aesKey cfg)) iv"
  shows "decryptData L cfg (to_hex iv @ '':'' @ to_hex ct) =
           (case aes_256_cbc_decrypt L (from_hex (aesKey cfg)) iv ct of
              Some decrypted \<Rightarrow> Inr decrypted
            | None \<Rightarrow> Inl (Error ''Gagal mendekripsi data. Pastikan kunci enkripsi benar.''))"
proof -
  have parts: "split_on CHR '':'' (to_hex iv @ '':'' @ to_hex ct) = [to_hex iv, to_hex ct]"
    using split_on_field [of "CHR '':''" "to_hex iv" "to_hex ct"]
    by (simp add: to_hex_no_colon)
  show ?thesis
    unfolding decryptData_def parts
    using assms by (simp add: nth_opt_def from_to_hex length_to_hex)
qed

section \<open>Secret Cipher: theorems\<close>

text \<open>
  C1. Decrypting what \<^verbatim>\<open>encryptData\<close> returned for a non-empty plaintext gives the
  plaintext back. The master key is a well-formed one (64 hexadecimal digits, i.e. 32
  bytes, as the README asks for), the IV is the 16 bytes \<^verbatim>\<open>randomBytes(16)\<close> returns, and
  the AES primitive of Node is assumed to invert itself on this key, IV and plaintext
  (with the UTF-8 encoding and decoding that the cipher objects do, which give a
  well-formed text back unchanged).
  What is proved about the repository's code is that the field \<open>hex(iv):hex(ct)\<close> it
  writes is parsed back by \<^verbatim>\<open>decryptData\<close> into the same IV and ciphertext and that
  none of its guards rejects it.
\<close>

theorem C1_decrypt_encrypt:
  assumes "plaintext \<noteq> []"
    and "length (from_hex (aesKey cfg)) = 32"
    and "length iv = 16"
    and "aes_256_cbc_decrypt L (from_hex (aesKey cfg)) iv
           (aes_256_cbc_encrypt L (from_hex (aesKey cfg)) iv plaintext) = Some plaintext"
  shows "\<exists>field. encryptData L cfg iv plaintext = Inr field
           \<and> decryptData L cfg field = Inr plaintext"
proof -
  have ok: "cipher_params_ok (from_hex (aesKey cfg)) iv"
    using assms(2,3) by (simp add: cipher_params_ok_def)
  let ?ct = "aes_256_cbc_encrypt L (from_hex (aesKey cfg)) iv plaintext"
  have enc: "encryptData L cfg iv plaintext = Inr (to_hex iv @ '':'' @ to_hex ?ct)"
    using assms(1) ok by (simp add: encryptData_def)
  have dec: "decryptData L cfg (to_hex iv @ '':'' @ to_hex ?ct) = Inr plaintext"
    using decrypt_of_field [OF ok, of L ?ct] assms(4) by simp
  from enc dec show ?thesis by blast
qed

lemma sample_key_length: "length (from_hex (aesKey sample_config)) = 32"
  by (simp add: sample_config_def hex_val_def)

lemma sample_aes_roundtrip:
  "aes_256_cbc_decrypt sample_lib k iv (aes_256_cbc_encrypt sample_lib k iv txt) = Some txt"
  by (simp add: sample_lib_def sample_aes_encrypt_def sample_aes_decrypt_def comp_def
      byte_of_char_def char_of_byte_def unat_of_nat)

theorem C1_decrypt_encrypt_witness:
  "\<exists>field. encryptData sample_lib sample_config sample_iv ''hunter2'' = Inr field
     \<and> decryptData sample_lib sample_config field = Inr ''hunter2''"
  using C1_decrypt_encrypt [of "''hunter2''" sample_config sample_iv sample_lib]
  by (simp add: sample_key_length sample_aes_roundtrip sample_iv_def)

text \<open>
  C8. Two encryptions of the same non-empty plaintext that drew different IVs return
  different \<open>EncryptedField\<close> strings, whatever the cipher does: the IV is the first
  part of the field.
\<close>

theorem C8_fresh_iv_distinct_fields:
  assumes "plaintext \<noteq> []"
    and "length (from_hex (aesKey cfg)) = 32"
    and "length iv1 = 16" and "length iv2 = 16"
    and "iv1 \<noteq> iv2"
  shows "\<exists>f1 f2. encryptData L cfg iv1 plaintext = Inr f1
           \<and> encryptData L cfg iv2 plaintext = Inr f2 \<and> f1 \<noteq> f2"
proof -
  let ?k = "from_hex (aesKey cfg)"
  let ?f1 = "to_hex iv1 @ '':'' @ to_hex (aes_256_cbc_encrypt L ?k iv1 plaintext)"
  let ?f2 = "to_hex iv2 @ '':'' @ to_hex (aes_256_cbc_encrypt L ?k iv2 plaintext)"
  have e1: "encryptData L cfg iv1 plaintext = Inr ?f1"
    using assms(1,2,3) by (simp add: encryptData_def cipher_params_ok_def)
  have e2: "encryptData L cfg iv2 plaintext = Inr ?f2"
    using assms(1,2,4) by (simp add: encryptData_def cipher_params_ok_def)
  have "?f1 \<noteq> ?f2"
  proof
    assume eq: "?f1 = ?f2"
    have "length (to_hex iv1) = length (to_hex iv2)"
      using assms(3,4) by (simp add: length_to_hex)
    with eq have "to_hex iv1 = to_hex iv2" by simp
    then have "from_hex (to_hex iv1) = from_hex (to_hex iv2)" by simp
    then show False using assms(5) by (simp add: from_to_hex)
  qed
  with e1 e2 show ?thesis by blast
qed

theorem C8_fresh_iv_distinct_fields_witness:
  "\<exists>f1 f2. encryptData sample_lib sample_config sample_iv ''hunter2'' = Inr f1
     \<and> encryptData sample_lib sample_config sample_iv2 ''hunter2'' = Inr f2 \<and> f1 \<noteq> f2"
  using C8_fresh_iv_distinct_fields
          [of "''hunter2''" sample_config sample_iv sample_iv2 sample_lib]
  by (simp add: sample_key_length sample_iv_def sample_iv2_def)

section \<open>Lockout policy: theorems\<close>

lemma find_map_preserved:
  assumes "\<And>x. P (g x) = P x"
  shows "find P (map g xs) = map_option g (find P xs)"
  using assms by (induction xs) auto

lemma find_user_update:
  assumes "\<And>x. u_username (f x) = u_username x" "\<And>x. u_email (f x) = u_email x"
  shows "find_user (update_user st uid f) ident =
           map_option (\<lambda>u. if u_id u = uid then f u else u) (find_user st ident)"
  unfolding find_user_def update_user_def
  using assms by (simp add: find_map_preserved)

lemma find_user_logActivity [simp]:
  "find_user (logActivity st a b c d e f) ident = find_user st ident"
  by (simp add: find_user_def logActivity_def)

lemma find_user_hasher [simp]:
  "find_user (st\<lparr>hasher_calls := h\<rparr>) ident = find_user st ident"
  by (simp add: find_user_def)

lemma login_wrong_password:
  assumes "req_identifier r \<noteq> []" "req_password r \<noteq> []"
    and "find_user st (sanitizeInput (req_identifier r)) = Some u"
    and "u_is_active u" "account_locked u now = None"
    and "verifyPassword L (req_password r) (u_password_hash u) = Inr False"
  shows "fst (login L cfg st r rnd now) = WrongPassword (u_login_attempts u + 1)"
    and "find_user st ident = Some u \<Longrightarrow>
         find_user (snd (login L cfg st r rnd now)) ident = Some (failed_update now u)"
  using assms
  by (simp_all add: login_def Let_def find_user_update failed_update_def)

lemma login_locked:
  assumes "req_identifier r \<noteq> []" "req_password r \<noteq> []"
    and "find_user st (sanitizeInput (req_identifier r)) = Some u"
    and "u_is_active u" "account_locked u now = Some T"
  shows "login L cfg st r rnd now = (AccountLocked (minutes_left T now), st)"
  using assms by (simp add: login_def)

lemma login_locked_frame:
  assumes "find_user st (sanitizeInput (req_identifier r)) = Some u"
    and "account_locked u now = Some T"
  shows "snd (login L cfg st r rnd now) = st"
  using assms by (simp add: login_def)

lemma minutes_left_pos: "now < T \<Longrightarrow> 1 \<le> minutes_left T now"
  unfolding minutes_left_def by linarith

lemma logins_Cons:
  "logins L cfg st ((r, n, t) # rest) =
     (fst (login L cfg st r n t) # fst (logins L cfg (snd (login L cfg st r n t)) rest),
      snd (logins L cfg (snd (login L cfg st r n t)) rest))"
  by (simp add: case_prod_beta Let_def)

lemma failed_step:
  assumes "ident \<noteq> []" "wrong_password_request L u0 ident r"
    and "find_user st (sanitizeInput ident) = Some u"
    and "u_is_active u" "u_locked_until u = None" "u_password_hash u = u_password_hash u0"
  shows "fst (login L cfg st r rnd now) = WrongPassword (u_login_attempts u + 1)"
    and "find_user (snd (login L cfg st r rnd now)) (sanitizeInput ident)
           = Some (failed_update now u)"
proof -
  have a: "req_identifier r \<noteq> []" "req_password r \<noteq> []"
    "find_user st (sanitizeInput (req_identifier r)) = Some u"
    "verifyPassword L (req_password r) (u_password_hash u) = Inr False"
    using assms by (simp_all add: wrong_password_request_def)
  have l: "account_locked u now = None" using assms(5) by (simp add: account_locked_def)
  show "fst (login L cfg st r rnd now) = WrongPassword (u_login_attempts u + 1)"
    using login_wrong_password(1) [OF a(1,2,3) assms(4) l a(4)] .
  show "find_user (snd (login L cfg st r rnd now)) (sanitizeInput ident)
           = Some (failed_update now u)"
    using login_wrong_password(2) [OF a(1,2,3) assms(4) l a(4)] assms(3) by simp
qed

text \<open>
  C3. Let \<open>u\<close> be the active user that the identifier \<open>ident\<close> of the requests
  resolves to. (1) If \<open>u\<close> has no failed attempt and no lock, five consecutive login
  requests with wrong passwords, at any times \<open>t1\<close>, ..., \<open>t5\<close>, are each answered 401
  with the attempt number, and leave the row with five attempts and
  \<^verbatim>\<open>locked_until\<close> = \<open>t5\<close> + 30 minutes. (2) If \<open>u\<close> is locked until \<open>T\<close> and the
  clock shows \<open>now < T\<close>, a login request leaves the whole state as it was: the
  hasher's call log and the attempt counter included; and when it carries a password it is
  answered 403 with the number of minutes left, which is at least one. (A request with
  no password is answered 400 and a deactivated account 403 before the lock is looked at;
  those are the hypotheses \<open>u_is_active u\<close> and \<open>req_password r \<noteq> []\<close>.)
\<close>

theorem C3_lockout:
  assumes found: "find_user st (sanitizeInput ident) = Some u"
    and active: "u_is_active u"
    and ident: "ident \<noteq> []"
  shows "(u_login_attempts u = 0 \<and> u_locked_until u = None
          \<and> (\<forall>r \<in> set [r1, r2, r3, r4, r5]. wrong_password_request L u ident r)
          \<longrightarrow> (\<exists>st'. logins L cfg st
                        [(r1, n1, t1), (r2, n2, t2), (r3, n3, t3), (r4, n4, t4), (r5, n5, t5)]
                      = ([WrongPassword 1, WrongPassword 2, WrongPassword 3, WrongPassword 4,
                          WrongPassword 5], st')
                 \<and> find_user st' (sanitizeInput ident)
                     = Some (u\<lparr>u_login_attempts := 5, u_locked_until := Some (t5 + 1800000)\<rparr>)))
       \<and> (u_locked_until u = Some T \<and> now < T \<and> req_identifier r = ident
          \<longrightarrow> snd (login L cfg st r rnd now) = st
              \<and> (req_password r \<noteq> []
                   \<longrightarrow> login L cfg st r rnd now = (AccountLocked (minutes_left T now), st)
                       \<and> 1 \<le> minutes_left T now))"
proof (intro conjI impI)
  assume h: "u_login_attempts u = 0 \<and> u_locked_until u = None
          \<and> (\<forall>r \<in> set [r1, r2, r3, r4, r5]. wrong_password_request L u ident r)"
  then have w: "wrong_password_request L u ident r1" "wrong_password_request L u ident r2"
    "wrong_password_request L u ident r3" "wrong_password_request L u ident r4"
    "wrong_password_request L u ident r5" by simp_all
  let ?k = "sanitizeInput ident"
  define st1 where "st1 = snd (login L cfg st r1 n1 t1)"
  define st2 where "st2 = snd (login L cfg st1 r2 n2 t2)"
  define st3 where "st3 = snd (login L cfg st2 r3 n3 t3)"
  define st4 where "st4 = snd (login L cfg st3 r4 n4 t4)"
  define st5 where "st5 = snd (login L cfg st4 r5 n5 t5)"
  define u1 where "u1 = u\<lparr>u_login_attempts := 1\<rparr>"
  define u2 where "u2 = u\<lparr>u_login_attempts := 2\<rparr>"
  define u3 where "u3 = u\<lparr>u_login_attempts := 3\<rparr>"
  define u4 where "u4 = u\<lparr>u_login_attempts := 4\<rparr>"
  have r1: "fst (login L cfg st r1 n1 t1) = WrongPassword 1" and f1: "find_user st1 ?k = Some u1"
    using failed_step [OF ident w(1) found active, of cfg n1 t1] h
    by (simp_all add: st1_def u1_def failed_update_def)
  have r2: "fst (login L cfg st1 r2 n2 t2) = WrongPassword 2" and f2: "find_user st2 ?k = Some u2"
    using failed_step [OF ident w(2) f1, of cfg n2 t2] h active
    by (simp_all add: st2_def u1_def u2_def failed_update_def)
  have r3: "fst (login L cfg st2 r3 n3 t3) = WrongPassword 3" and f3: "find_user st3 ?k = Some u3"
    using failed_step [OF ident w(3) f2, of cfg n3 t3] h active
    by (simp_all add: st3_def u2_def u3_def failed_update_def)
  have r4: "fst (login L cfg st3 r4 n4 t4) = WrongPassword 4" and f4: "find_user st4 ?k = Some u4"
    using failed_step [OF ident w(4) f3, of cfg n4 t4] h active
    by (simp_all add: st4_def u3_def u4_def failed_update_def)
  have r5: "fst (login L cfg st4 r5 n5 t5) = WrongPassword 5"
    and f5: "find_user st5 ?k = Some (u\<lparr>u_login_attempts := 5, u_locked_until := Some (t5 + 1800000)\<rparr>)"
    using failed_step [OF ident w(5) f4, of cfg n5 t5] h active
    by (simp_all add: st5_def u4_def failed_update_def)
  have "logins L cfg st
          [(r1, n1, t1), (r2, n2, t2), (r3, n3, t3), (r4, n4, t4), (r5, n5, t5)]
        = ([WrongPassword 1, WrongPassword 2, WrongPassword 3, WrongPassword 4,
            WrongPassword 5], st5)"
    unfolding logins_Cons
    using r1 r2 r3 r4 r5 by (simp add: st1_def st2_def st3_def st4_def st5_def)
  with f5 show "\<exists>st'. logins L cfg st
                        [(r1, n1, t1), (r2, n2, t2), (r3, n3, t3), (r4, n4, t4), (r5, n5, t5)]
                      = ([WrongPassword 1, WrongPassword 2, WrongPassword 3, WrongPassword 4,
                          WrongPassword 5], st')
                 \<and> find_user st' (sanitizeInput ident)
                     = Some (u\<lparr>u_login_attempts := 5, u_locked_until := Some (t5 + 1800000)\<rparr>)"
    by blast
next
  assume h: "u_locked_until u = Some T \<and> now < T \<and> req_identifier r = ident"
  then have l: "account_locked u now = Some T" by (simp add: account_locked_def)
  show "snd (login L cfg st r rnd now) = st"
    using login_locked_frame [of st r u now T] found h l by simp
  {
    assume p: "req_password r \<noteq> []"
    show "login L cfg st r rnd now = (AccountLocked (minutes_left T now), st)"
      using login_locked [of r st u now T] found active ident h l p by simp
    show "1 \<le> minutes_left T now" using h by (simp add: minutes_left_pos)
  }
qed


lemma sanitize_alice: "sanitizeInput ''alice'' = ''alice''"
  by (simp add: sanitizeInput_def trim_def is_space_def)

lemma guess_wrong: "wrong_password_request sample_lib alice ''alice'' guess"
  by (simp add: wrong_password_request_def guess_def verifyPassword_def sample_lib_def
      sample_bcrypt_compare_def alice_def)

theorem C3_lockout_witness:
  "(\<exists>st'. logins sample_lib sample_config sample_state
             [(guess, ''r1'', 1000), (guess, ''r2'', 2000), (guess, ''r3'', 3000),
              (guess, ''r4'', 4000), (guess, ''r5'', 5000)]
           = ([WrongPassword 1, WrongPassword 2, WrongPassword 3, WrongPassword 4,
               WrongPassword 5], st')
         \<and> find_user st' ''alice'' = Some alice_locked)
   \<and> login sample_lib sample_config locked_state guess ''r6'' 6000
       = (AccountLocked 30, locked_state)"
proof -
  have f: "find_user sample_state (sanitizeInput ''alice'') = Some alice"
    by (simp add: sanitize_alice find_user_def sample_state_def alice_def)
  have a: "u_is_active alice" "''alice'' \<noteq> []" by (simp_all add: alice_def)
  have fl: "find_user locked_state (sanitizeInput ''alice'') = Some alice_locked"
    by (simp add: sanitize_alice find_user_def locked_state_def sample_state_def
        alice_locked_def alice_def)
  have al: "u_is_active alice_locked" by (simp add: alice_locked_def alice_def)
  have m: "minutes_left 1805000 6000 = 30" by (simp add: minutes_left_def)
  have p1: "\<exists>st'. logins sample_lib sample_config sample_state
             [(guess, ''r1'', 1000), (guess, ''r2'', 2000), (guess, ''r3'', 3000),
              (guess, ''r4'', 4000), (guess, ''r5'', 5000)]
           = ([WrongPassword 1, WrongPassword 2, WrongPassword 3, WrongPassword 4,
               WrongPassword 5], st')
         \<and> find_user st' ''alice'' = Some alice_locked"
    using C3_lockout [OF f a, of guess guess guess guess guess sample_lib sample_config
        "''r1''" 1000 "''r2''" 2000 "''r3''" 3000 "''r4''" 4000 "''r5''" 5000]
      guess_wrong
    by (simp add: sanitize_alice alice_locked_def) (simp add: alice_def)
  have p2: "login sample_lib sample_config locked_state guess ''r6'' 6000
       = (AccountLocked 30, locked_state)"
    using C3_lockout [OF fl al a(2), where T = 1805000 and now = 6000 and r = guess
        and L = sample_lib and cfg = sample_config and rnd = "''r6''"] m
    by (simp add: alice_locked_def guess_def)
  from p1 p2 show ?thesis by blast
qed

text \<open>
  After a lock has passed, a failed attempt of a user with four or more counted failures
  is counted on top of them and locks the account again.
\<close>

lemma login_after_expired_lock:
  assumes "req_identifier r \<noteq> []" "req_password r \<noteq> []"
    and "find_user st (sanitizeInput (req_identifier r)) = Some u"
    and "u_is_active u"
    and "u_locked_until u = Some T" "T \<le> now" "4 \<le> u_login_attempts u"
    and "verifyPassword L (req_password r) (u_password_hash u) = Inr False"
  shows "fst (login L cfg st r rnd now) = WrongPassword (u_login_attempts u + 1)"
    and "find_user (snd (login L cfg st r rnd now)) (sanitizeInput (req_identifier r))
           = Some (u\<lparr>u_login_attempts := u_login_attempts u + 1,
                     u_locked_until := Some (now + 1800000)\<rparr>)"
proof -
  have l: "account_locked u now = None"
    using assms(5,6) by (simp add: account_locked_def)
  show "fst (login L cfg st r rnd now) = WrongPassword (u_login_attempts u + 1)"
    using login_wrong_password(1) [OF assms(1,2,3,4) l assms(8)] .
  show "find_user (snd (login L cfg st r rnd now)) (sanitizeInput (req_identifier r))
           = Some (u\<lparr>u_login_attempts := u_login_attempts u + 1,
                     u_locked_until := Some (now + 1800000)\<rparr>)"
    using login_wrong_password(2) [OF assms(1,2,3,4) l assms(8) assms(3)] assms(7)
    by (simp add: failed_update_def)
qed

text \<open>
  C4 (the code at the failing input). \<^verbatim>\<open>alice\<close> has five failed attempts and a lock
  that ended at 1805000. At 2000000 she sends one wrong password: the attempt is counted
  as the sixth, not as the first of a new window, and the account is locked again at
  once, until 2000000 + 30 minutes. \<^verbatim>\<open>login\<close> never resets \<^verbatim>\<open>login_attempts\<close> when it
  finds a lock that has passed; the only statement that would reset it is the UPDATE after
  a password that verifies.
\<close>

theorem C4_expired_lock_relocks:
  "fst (login sample_lib sample_config locked_state guess ''r7'' 2000000) = WrongPassword 6
   \<and> find_user (snd (login sample_lib sample_config locked_state guess ''r7'' 2000000)) ''alice''
       = Some (alice\<lparr>u_login_attempts := 6, u_locked_until := Some 3800000\<rparr>)"
  by (simp add: login_def guess_def sanitize_alice find_user_def locked_state_def
      sample_state_def alice_locked_def alice_def account_locked_def verifyPassword_def
      sample_lib_def sample_bcrypt_compare_def update_user_def logActivity_def Let_def)


section \<open>Credential Hasher: theorems\<close>

text \<open>
  C7 (as amended). \<^verbatim>\<open>verifyPassword\<close> never raises. It returns \<^verbatim>\<open>true\<close> exactly when
  \<^verbatim>\<open>bcrypt.compare\<close> returned \<^verbatim>\<open>true\<close>, and \<^verbatim>\<open>false\<close> both when the comparison
  returned \<^verbatim>\<open>false\<close> and when it threw: the \<^verbatim>\<open>catch\<close> turns every error of the
  comparison, a malformed digest included, into \<^verbatim>\<open>false\<close>.
\<close>

theorem C7_verify_never_raises:
  "(\<exists>b. verifyPassword L s d = Inr b)
   \<and> (verifyPassword L s d = Inr True \<longleftrightarrow> bcrypt_compare L s d = Some True)
   \<and> (verifyPassword L s d = Inr False \<longleftrightarrow> bcrypt_compare L s d \<in> {Some False, None})"
  by (auto simp: verifyPassword_def split: option.splits)

text \<open>
  C7 as stated fails: the digest \<^verbatim>\<open>not-a-bcrypt-digest\<close> is not a well-formed digest
  encoding, the comparison of the stand-in library throws on it, and \<^verbatim>\<open>verifyPassword\<close>
  returns \<^verbatim>\<open>false\<close> instead of raising an invalid-digest-format error.
\<close>

theorem C7_malformed_digest_returns_false:
  "\<not> well_formed_digest ''not-a-bcrypt-digest''
   \<and> bcrypt_compare sample_lib ''Secret123!'' ''not-a-bcrypt-digest'' = None
   \<and> verifyPassword sample_lib ''Secret123!'' ''not-a-bcrypt-digest'' = Inr False"
  by (simp add: well_formed_digest_def verifyPassword_def sample_lib_def sample_bcrypt_compare_def)

section \<open>Vault Codec: theorems\<close>

text \<open>
  C9 (as amended). The string \<^verbatim>\<open>encryptExportData\<close> returns is the JSON text of a
  document with exactly the fields \<^verbatim>\<open>version\<close> (the string \<^verbatim>\<open>1.0\<close>), \<^verbatim>\<open>timestamp\<close>
  (the clock's \<^verbatim>\<open>toISOString()\<close>) and \<^verbatim>\<open>data\<close> (the string crypto-js returns for the
  serialized data under the export key), in this order.
\<close>

theorem C9_export_package_fields:
  "\<exists>pkg. encryptExportData L cfg data customKey salt now = Inr (JSON_stringify L pkg)
     \<and> json_fields pkg = [''version'', ''timestamp'', ''data'']
     \<and> get_prop pkg ''version'' = Some (JStr ''1.0'')
     \<and> get_prop pkg ''timestamp'' = Some (JStr (toISOString L now))
     \<and> get_prop pkg ''data''
         = Some (JStr (CryptoJS_AES_encrypt L (JSON_stringify L data)
                         (export_key cfg customKey) salt))"
  by (rule exI [of _ "exportPackage L (CryptoJS_AES_encrypt L (JSON_stringify L data)
                       (export_key cfg customKey) salt) now"])
     (simp add: encryptExportData_def exportPackage_def json_fields_def Let_def)

lemma sample_export:
  "encryptExportData sample_lib sample_config sample_data (Some ''correct horse'') [] 0
     = Inr (sample_stringify sample_package)"
  by code_simp

text \<open>
  C9 as stated fails: the container exported for the example data has the fields
  \<^verbatim>\<open>version\<close>, \<^verbatim>\<open>timestamp\<close>, \<^verbatim>\<open>data\<close>, and neither a field \<^verbatim>\<open>createdAt\<close> nor a field
  \<^verbatim>\<open>payload\<close>.
\<close>

theorem C9_no_createdAt_payload:
  "encryptExportData sample_lib sample_config sample_data (Some ''correct horse'') [] 0
     = Inr (JSON_stringify sample_lib sample_package)
   \<and> JSON_parse sample_lib (JSON_stringify sample_lib sample_package) = Some sample_package
   \<and> json_fields sample_package = [''version'', ''timestamp'', ''data'']
   \<and> get_prop sample_package ''createdAt'' = None
   \<and> get_prop sample_package ''payload'' = None"
  using sample_export
  by (simp add: sample_lib_def sample_parse_def json_fields_def sample_package_def)

section \<open>The statements the store rejects, and expiry as text\<close>

text \<open>
  Because of the rejected UPDATE, \<^verbatim>\<open>validateSession\<close> reports a session it has found as
  an error, the middleware never calls \<^verbatim>\<open>next()\<close>, and a login with the right password
  is answered 500; none of them writes to a table.
\<close>

lemma validateSession_live:
  assumes "find (session_live L st (hashToken L token) now) (sessions st) = Some session"
  shows "validateSession L st token now = (Inl ''Gagal memvalidasi session'', st)"
  using assms by (simp add: validateSession_def executeUpdate_dq_now_def)

lemma authenticateToken_rejects:
  "\<exists>error. authenticateToken L cfg st authHeader now = (Rejected 401 error, st)"
  by (auto simp: authenticateToken_def validateSession_def executeUpdate_dq_now_def Let_def
      split: option.splits sum.splits)

lemma login_right_password:
  assumes "req_identifier r \<noteq> []" "req_password r \<noteq> []"
    and "find_user st (sanitizeInput (req_identifier r)) = Some u"
    and "u_is_active u" "account_locked u now = None"
    and "verifyPassword L (req_password r) (u_password_hash u) = Inr True"
  shows "login L cfg st r rnd now
           = (ServerError,
              st\<lparr>hasher_calls := hasher_calls st @ [(req_password r, u_password_hash u)]\<rparr>)"
  using assms by (simp add: login_def executeUpdate_dq_now_def)

text \<open>
  \<^verbatim>\<open>alice\<close>'s session expires at 00:00:05 on 8 January. At noon of that day the text
  of \<^verbatim>\<open>datetime('now')\<close> is still less than the ISO text in \<^verbatim>\<open>expires_at\<close> (a space
  comes before \<^verbatim>\<open>T\<close>), so the session lookup still takes the row and the clean-up keeps
  it; both change at midnight.
\<close>

lemma sample_live_on_expiry_day:
  "session_live sample_lib sample_state (hashToken sample_lib alice_access) 648000000
     alice_session
   \<and> cleanExpiredSessions sample_lib sample_state 648000000 = (0, sample_state)
   \<and> \<not> session_live sample_lib sample_state (hashToken sample_lib alice_access) 691200000
         alice_session
   \<and> fst (cleanExpiredSessions sample_lib sample_state 691200000) = 1"
  by code_simp

section \<open>Token Authority: refresh\<close>

lemma verifyRefreshToken_errors:
  "verifyRefreshToken L cfg tok now = Inl e \<Longrightarrow> e \<in> refresh_token_invalid"
  by (auto simp: verifyRefreshToken_def refresh_token_invalid_def
      split: sum.splits jwt_payload.splits jwt_error.splits)


lemma refresh_failed_other:
  "refresh_failed \<notin> refresh_token_invalid" "refresh_failed \<noteq> owner_inactive"
  by (simp_all add: refresh_failed_def refresh_token_invalid_def owner_inactive_def)

lemma refresh_success:
  assumes "refreshAccessToken L cfg st tok now = (Inr (newTok, info), st')"
  shows "\<exists>userId tokenHash session user.
           verifyRefreshToken L cfg tok now = Inr (userId, tokenHash)
         \<and> find (\<lambda>s. s_refresh_token_hash s = Some tokenHash \<and> s_is_valid s) (sessions st)
             = Some session
         \<and> find (\<lambda>u. u_id u = userId \<and> u_is_active u) (users st) = Some user
         \<and> info = \<lparr>i_id = u_id user, i_username = u_username user, i_email = u_email user\<rparr>
         \<and> newTok = generateAccessToken L cfg info now
         \<and> \<not> token_hash_taken st (s_id session) (hashToken L newTok)
         \<and> st' = st\<lparr>sessions := map (refreshed L (s_id session) (hashToken L newTok) now)
                                    (sessions st)\<rparr>"
  using assms
  by (auto simp: refreshAccessToken_def Let_def refreshed_def [abs_def]
      split: sum.splits option.splits prod.splits if_splits)

lemma refresh_failure:
  assumes "refreshAccessToken L cfg st tok now = (Inl e, st')"
  shows "st' = st"
    and "e \<in> refresh_token_invalid \<or> e = owner_inactive \<or> e = refresh_failed"
    and "e = refresh_failed \<Longrightarrow>
           \<exists>userId tokenHash session user.
               verifyRefreshToken L cfg tok now = Inr (userId, tokenHash)
             \<and> find (\<lambda>s. s_refresh_token_hash s = Some tokenHash \<and> s_is_valid s) (sessions st)
                 = Some session
             \<and> find (\<lambda>u. u_id u = userId \<and> u_is_active u) (users st) = Some user
             \<and> token_hash_taken st (s_id session)
                 (hashToken L (generateAccessToken L cfg
                    \<lparr>i_id = u_id user, i_username = u_username user, i_email = u_email user\<rparr>
                    now))"
proof -
  show "st' = st"
    using assms
    by (auto simp: refreshAccessToken_def Let_def
        split: sum.splits option.splits prod.splits if_splits)
  show "e \<in> refresh_token_invalid \<or> e = owner_inactive \<or> e = refresh_failed"
    using assms verifyRefreshToken_errors [of L cfg tok now]
    by (auto simp: refreshAccessToken_def Let_def refresh_token_invalid_def
        owner_inactive_def refresh_failed_def
        split: sum.splits option.splits prod.splits if_splits)
next
  assume e: "e = refresh_failed"
  show "\<exists>userId tokenHash session user.
               verifyRefreshToken L cfg tok now = Inr (userId, tokenHash)
             \<and> find (\<lambda>s. s_refresh_token_hash s = Some tokenHash \<and> s_is_valid s) (sessions st)
                 = Some session
             \<and> find (\<lambda>u. u_id u = userId \<and> u_is_active u) (users st) = Some user
             \<and> token_hash_taken st (s_id session)
                 (hashToken L (generateAccessToken L cfg
                    \<lparr>i_id = u_id user, i_username = u_username user, i_email = u_email user\<rparr>
                    now))"
  proof (cases "verifyRefreshToken L cfg tok now")
    case (Inl err)
    then have "e \<in> refresh_token_invalid"
      using assms verifyRefreshToken_errors [of L cfg tok now err]
      by (simp add: refreshAccessToken_def)
    with e refresh_failed_other(1) show ?thesis by simp
  next
    case (Inr p)
    obtain userId tokenHash where p: "p = (userId, tokenHash)" by (cases p)
    show ?thesis
      using assms e Inr p refresh_failed_other
      by (auto simp: refreshAccessToken_def Let_def refresh_token_invalid_def
          owner_inactive_def
          split: option.splits if_splits)
  qed
qed

lemma refresh_when:
  assumes "verifyRefreshToken L cfg tok now = Inr (userId, tokenHash)"
    and "find (\<lambda>s. s_refresh_token_hash s = Some tokenHash \<and> s_is_valid s) (sessions st)
             = Some session"
    and "find (\<lambda>u. u_id u = userId \<and> u_is_active u) (users st) = Some user"
    and "\<not> token_hash_taken st (s_id session)
             (hashToken L (generateAccessToken L cfg
                \<lparr>i_id = u_id user, i_username = u_username user, i_email = u_email user\<rparr>
                now))"
  shows "\<exists>newTok info st'. refreshAccessToken L cfg st tok now = (Inr (newTok, info), st')"
  using assms by (simp add: refreshAccessToken_def Let_def)

lemma refresh_when_taken:
  assumes "verifyRefreshToken L cfg tok now = Inr (userId, tokenHash)"
    and "find (\<lambda>s. s_refresh_token_hash s = Some tokenHash \<and> s_is_valid s) (sessions st)
             = Some session"
    and "find (\<lambda>u. u_id u = userId \<and> u_is_active u) (users st) = Some user"
    and "token_hash_taken st (s_id session)
           (hashToken L (generateAccessToken L cfg
              \<lparr>i_id = u_id user, i_username = u_username user, i_email = u_email user\<rparr>
              now))"
  shows "refreshAccessToken L cfg st tok now = (Inl refresh_failed, st)"
  using assms by (simp add: refreshAccessToken_def Let_def refresh_failed_def)

lemma find_refreshed:
  "find (\<lambda>s. s_refresh_token_hash s = Some h \<and> s_is_valid s) (map (refreshed L sid nh now) xs)
     = map_option (refreshed L sid nh now)
         (find (\<lambda>s. s_refresh_token_hash s = Some h \<and> s_is_valid s) xs)"
  by (induction xs) (auto simp: refreshed_def)


lemma sample_refresh:
  "refreshAccessToken sample_lib sample_config sample_state alice_refresh 5000
      = (Inr (alice_access, alice_info),
         sample_state\<lparr>sessions := [alice_session\<lparr>s_token_hash := hashToken sample_lib alice_access,
                                                s_expires_at := ''1970-01-08 00:00:05''\<rparr>]\<rparr>)"
  by code_simp






text \<open>
  C10. A successful \<^verbatim>\<open>refreshAccessToken\<close> changes nothing but the \<^verbatim>\<open>sessions\<close> table,
  and there only \<^verbatim>\<open>token_hash\<close> and \<^verbatim>\<open>expires_at\<close> of the rows with one id: the
  columns \<^verbatim>\<open>refresh_token_hash\<close>, \<^verbatim>\<open>user_id\<close>, \<^verbatim>\<open>is_valid\<close> and \<^verbatim>\<open>id\<close> are as before.
  Hence the same refresh token is accepted again by a later call, at any time at which
  it still verifies as it did: the call succeeds, unless another session holds the digest
  of the access token signed then, in which case the table rejects the UPDATE and the
  answer is the error of the \<^verbatim>\<open>catch\<close>; it is never answered that the refresh token is
  invalid or revoked, or its owner inactive.
\<close>

theorem C10_refresh_frame:
  assumes "refreshAccessToken L cfg st tok now = (Inr (newTok, info), st')"
  shows "\<exists>sid. sessions st' = map (refreshed L sid (hashToken L newTok) now) (sessions st)
       \<and> st' = st\<lparr>sessions := sessions st'\<rparr>
       \<and> map s_refresh_token_hash (sessions st') = map s_refresh_token_hash (sessions st)
       \<and> map s_user_id (sessions st') = map s_user_id (sessions st)
       \<and> map s_is_valid (sessions st') = map s_is_valid (sessions st)
       \<and> map s_id (sessions st') = map s_id (sessions st)
       \<and> (\<forall>now'. jwt_verify L tok (jwt_secret cfg) now' = jwt_verify L tok (jwt_secret cfg) now
             \<longrightarrow> (if token_hash_taken st' sid
                         (hashToken L (generateAccessToken L cfg info now'))
                  then refreshAccessToken L cfg st' tok now' = (Inl refresh_failed, st')
                  else (\<exists>newTok' info' st''.
                          refreshAccessToken L cfg st' tok now' = (Inr (newTok', info'), st''))))"
proof -
  from refresh_success [OF assms]
  obtain userId tokenHash session user where
    v: "verifyRefreshToken L cfg tok now = Inr (userId, tokenHash)"
    and fs: "find (\<lambda>s. s_refresh_token_hash s = Some tokenHash \<and> s_is_valid s) (sessions st)
           = Some session"
    and fu: "find (\<lambda>u. u_id u = userId \<and> u_is_active u) (users st) = Some user"
    and i: "info = \<lparr>i_id = u_id user, i_username = u_username user, i_email = u_email user\<rparr>"
    and st': "st' = st\<lparr>sessions := map (refreshed L (s_id session) (hashToken L newTok) now)
                                  (sessions st)\<rparr>"
    by auto
  let ?r = "refreshed L (s_id session) (hashToken L newTok) now"
  have s': "sessions st' = map ?r (sessions st)" using st' by simp
  have cols: "map s_refresh_token_hash (map ?r xs) = map s_refresh_token_hash xs"
    "map s_user_id (map ?r xs) = map s_user_id xs"
    "map s_is_valid (map ?r xs) = map s_is_valid xs"
    "map s_id (map ?r xs) = map s_id xs" for xs
    by (induction xs) (auto simp: refreshed_def)
  have again: "if token_hash_taken st' (s_id session)
                    (hashToken L (generateAccessToken L cfg info now'))
               then refreshAccessToken L cfg st' tok now' = (Inl refresh_failed, st')
               else (\<exists>newTok' info' st''.
                       refreshAccessToken L cfg st' tok now' = (Inr (newTok', info'), st''))"
    if same: "jwt_verify L tok (jwt_secret cfg) now' = jwt_verify L tok (jwt_secret cfg) now"
    for now'
  proof -
    have v': "verifyRefreshToken L cfg tok now' = Inr (userId, tokenHash)"
      using v same by (simp add: verifyRefreshToken_def)
    have fs': "find (\<lambda>s. s_refresh_token_hash s = Some tokenHash \<and> s_is_valid s) (sessions st')
                 = Some (?r session)"
      using fs by (simp add: s' find_refreshed)
    have fu': "find (\<lambda>u. u_id u = userId \<and> u_is_active u) (users st') = Some user"
      using fu st' by simp
    have id: "s_id (?r session) = s_id session" by (simp add: refreshed_def)
    show ?thesis
    proof (cases "token_hash_taken st' (s_id session)
                    (hashToken L (generateAccessToken L cfg info now'))")
      case True
      then have "token_hash_taken st' (s_id (?r session))
                     (hashToken L (generateAccessToken L cfg
                        \<lparr>i_id = u_id user, i_username = u_username user, i_email = u_email user\<rparr>
                        now'))"
        by (simp add: i id)
      from refresh_when_taken [OF v' fs' fu' this] True show ?thesis by simp
    next
      case False
      then have "\<not> token_hash_taken st' (s_id (?r session))
                     (hashToken L (generateAccessToken L cfg
                        \<lparr>i_id = u_id user, i_username = u_username user, i_email = u_email user\<rparr>
                        now'))"
        by (simp add: i id)
      from refresh_when [OF v' fs' fu' this] False show ?thesis by simp
    qed
  qed
  have later: "\<forall>now'. jwt_verify L tok (jwt_secret cfg) now' = jwt_verify L tok (jwt_secret cfg) now
             \<longrightarrow> (if token_hash_taken st' (s_id session)
                         (hashToken L (generateAccessToken L cfg info now'))
                  then refreshAccessToken L cfg st' tok now' = (Inl refresh_failed, st')
                  else (\<exists>newTok' info' st''.
                          refreshAccessToken L cfg st' tok now' = (Inr (newTok', info'), st'')))"
    by (intro allI impI) (rule again)
  have frame: "st' = st\<lparr>sessions := sessions st'\<rparr>" using st' by simp
  have c: "map s_refresh_token_hash (sessions st') = map s_refresh_token_hash (sessions st)"
    "map s_user_id (sessions st') = map s_user_id (sessions st)"
    "map s_is_valid (sessions st') = map s_is_valid (sessions st)"
    "map s_id (sessions st') = map s_id (sessions st)"
    unfolding s' by (rule cols)+
  show ?thesis
    by (rule exI [of _ "s_id session"]) (intro conjI, (fact s' frame c later)+)
qed

lemma sample_not_taken:
  "\<not> list_ex (\<lambda>s. s_token_hash s
                    = hashToken sample_lib (generateAccessToken sample_lib sample_config
                                              alice_info 9000))
        (sessions (sample_state\<lparr>sessions :=
                     [alice_session\<lparr>s_token_hash := hashToken sample_lib alice_access,
                                    s_expires_at := ''1970-01-08 00:00:05''\<rparr>]\<rparr>))"
  by code_simp

theorem C10_refresh_frame_witness:
  "\<exists>st'. refreshAccessToken sample_lib sample_config sample_state alice_refresh 5000
            = (Inr (alice_access, alice_info), st')
        \<and> map s_refresh_token_hash (sessions st') = [Some ''#r4nd0m'']
        \<and> map s_user_id (sessions st') = [1]
        \<and> map s_is_valid (sessions st') = [True]
        \<and> (\<exists>newTok' info' st''.
              refreshAccessToken sample_lib sample_config st' alice_refresh 9000
                = (Inr (newTok', info'), st''))"
proof -
  let ?st' = "sample_state\<lparr>sessions :=
                [alice_session\<lparr>s_token_hash := hashToken sample_lib alice_access,
                               s_expires_at := ''1970-01-08 00:00:05''\<rparr>]\<rparr>"
  from C10_refresh_frame [OF sample_refresh] obtain sid where
    frame: "map s_refresh_token_hash (sessions ?st')
              = map s_refresh_token_hash (sessions sample_state)"
      "map s_user_id (sessions ?st') = map s_user_id (sessions sample_state)"
      "map s_is_valid (sessions ?st') = map s_is_valid (sessions sample_state)"
    and later: "\<forall>now'. jwt_verify sample_lib alice_refresh (jwt_secret sample_config) now'
                  = jwt_verify sample_lib alice_refresh (jwt_secret sample_config) 5000
             \<longrightarrow> (if token_hash_taken ?st' sid
                         (hashToken sample_lib
                            (generateAccessToken sample_lib sample_config alice_info now'))
                  then refreshAccessToken sample_lib sample_config ?st' alice_refresh now'
                         = (Inl refresh_failed, ?st')
                  else (\<exists>newTok' info' st''.
                          refreshAccessToken sample_lib sample_config ?st' alice_refresh now'
                            = (Inr (newTok', info'), st'')))"
    by blast
  have same: "jwt_verify sample_lib alice_refresh (jwt_secret sample_config) 9000
                = jwt_verify sample_lib alice_refresh (jwt_secret sample_config) 5000"
    by (simp add: sample_lib_def sample_jwt_verify_def)
  have free: "\<not> token_hash_taken ?st' sid
                  (hashToken sample_lib
                     (generateAccessToken sample_lib sample_config alice_info 9000))"
    using sample_not_taken unfolding token_hash_taken_def list_ex_iff by blast
  from later same free have again: "\<exists>newTok' info' st''.
      refreshAccessToken sample_lib sample_config ?st' alice_refresh 9000
        = (Inr (newTok', info'), st'')"
    by (simp split: if_splits)
  have cols: "map s_refresh_token_hash (sessions ?st') = [Some ''#r4nd0m'']"
    "map s_user_id (sessions ?st') = [1]" "map s_is_valid (sessions ?st') = [True]"
    using frame by (simp_all add: sample_state_def alice_session_def)
  show ?thesis
    by (rule exI [of _ ?st']) (use sample_refresh cols again in simp)
qed

section \<open>Token Authority: revocation\<close>

lemma revoked_iff:
  "revoked L t st \<longleftrightarrow> (\<forall>s \<in> set (sessions st). s_token_hash s = hashToken L t \<longrightarrow> \<not> s_is_valid s)"
  by (simp add: revoked_def list_all_iff)

lemma invalidateSession_revoked: "revoked L t (snd (invalidateSession L st t))"
  by (auto simp: revoked_iff invalidateSession_def Let_def)

lemma validateSession_revoked:
  assumes "revoked L t st"
  shows "validateSession L st t now
           = (Inl ''Session tidak ditemukan atau telah kadaluarsa'', st)"
proof -
  have "find (session_live L st (hashToken L t) now) (sessions st) = None"
    using assms by (auto simp: find_None_iff revoked_iff session_live_def)
  then show ?thesis by (simp add: validateSession_def)
qed

lemma refresh_success_state:
  assumes "refreshAccessToken L cfg st tok now = (Inr (newTok, info), st')"
  shows "\<exists>sid. st' = st\<lparr>sessions := map (refreshed L sid (hashToken L newTok) now)
                                       (sessions st)\<rparr>"
  using refresh_success [OF assms] by (elim exE conjE) (rule exI)

lemma step_revoked:
  assumes "revoked L t st"
    and "\<forall>tok \<in> set (issued L cfg st x). hashToken L tok \<noteq> hashToken L t"
  shows "revoked L t (ta_step L cfg st x)"
proof (cases x)
  case (Pair op now)
  show ?thesis
  proof (cases op)
    case (StoreSession userId accessToken refreshTokenHash deviceInfo ipAddress)
    with Pair assms show ?thesis
      by (auto simp: revoked_iff storeSession_def Let_def split: option.splits if_splits)
  next
    case (ValidateSession token)
    with Pair assms show ?thesis
      by (auto simp: revoked_iff validateSession_def executeUpdate_dq_now_def Let_def
          split: option.splits)
  next
    case (InvalidateSession token)
    with Pair assms show ?thesis
      by (auto simp: revoked_iff invalidateSession_def Let_def)
  next
    case (InvalidateAllUserSessions userId)
    with Pair assms show ?thesis
      by (auto simp: revoked_iff invalidateAllUserSessions_def)
  next
    case CleanExpiredSessions
    with Pair assms show ?thesis
      by (auto simp: revoked_iff cleanExpiredSessions_def)
  next
    case (RefreshAccessToken refreshToken)
    show ?thesis
    proof (cases "refreshAccessToken L cfg st refreshToken now")
      case (Pair res st')
      show ?thesis
      proof (cases res)
        case (Inl e)
        with Pair refresh_failure(1) [of L cfg st refreshToken now e st'] assms(1)
          RefreshAccessToken \<open>x = (op, now)\<close>
        show ?thesis by simp
      next
        case (Inr ok)
        obtain newTok info where ok: "ok = (newTok, info)" by (cases ok)
        have eq: "refreshAccessToken L cfg st refreshToken now = (Inr (newTok, info), st')"
          using Pair Inr ok by simp
        from refresh_success_state [OF eq] obtain sid where
          st': "st' = st\<lparr>sessions := map (refreshed L sid (hashToken L newTok) now)
                                    (sessions st)\<rparr>" ..
        have "hashToken L newTok \<noteq> hashToken L t"
          using assms(2) RefreshAccessToken \<open>x = (op, now)\<close> Pair Inr ok by simp
        then have "revoked L t st'"
          using assms(1) st' by (auto simp: revoked_iff refreshed_def)
        with Pair RefreshAccessToken \<open>x = (op, now)\<close> show ?thesis by simp
      qed
    qed
  next
    case (OtherWrites us logs calls)
    with Pair assms show ?thesis
      by (auto simp: revoked_iff)
  qed
qed

lemma run_revoked:
  assumes "revoked L t st"
    and "\<forall>tok \<in> set (issued_in_run L cfg st ops). hashToken L tok \<noteq> hashToken L t"
  shows "revoked L t (ta_run L cfg st ops)"
  using assms
proof (induction ops arbitrary: st)
  case Nil
  then show ?case by simp
next
  case (Cons x xs)
  have "revoked L t (ta_step L cfg st x)"
    using step_revoked [of L t st cfg x] Cons.prems by simp
  moreover have "\<forall>tok \<in> set (issued_in_run L cfg (ta_step L cfg st x) xs).
                    hashToken L tok \<noteq> hashToken L t"
    using Cons.prems(2) by simp
  ultimately show ?case using Cons.IH by simp
qed

text \<open>
  C2. Take any state and any access token \<open>t\<close>, presented in an
  \<^verbatim>\<open>Authorization: Bearer t\<close> header. After \<^verbatim>\<open>invalidateSession(t)\<close> has returned, and after
  any further run of Token Authority calls that issue no access token with the digest
  of \<open>t\<close> again, \<^verbatim>\<open>authenticateToken\<close> rejects the request with status 401 and leaves the
  state as it is, at every time \<open>now\<close>; and whenever the signature check of \<open>t\<close> still
  passes at \<open>now\<close> (valid signature, expiry not reached), the error is the one of the
  session lookup.
\<close>

theorem C2_revoked_token_rejected:
  assumes hdr: "bearer_token authHeader = Some t"
    and fresh: "\<forall>tok \<in> set (issued_in_run L cfg (snd (invalidateSession L st t)) ops).
                  hashToken L tok \<noteq> hashToken L t"
  shows "\<exists>error. authenticateToken L cfg (ta_run L cfg (snd (invalidateSession L st t)) ops)
                    authHeader now
                  = (Rejected 401 error, ta_run L cfg (snd (invalidateSession L st t)) ops)
               \<and> ((\<exists>decoded. verifyAccessToken L cfg t now = Inr decoded)
                    \<longrightarrow> error = session_revoked_error)"
proof -
  let ?st = "ta_run L cfg (snd (invalidateSession L st t)) ops"
  have r: "revoked L t ?st"
    using run_revoked [OF invalidateSession_revoked fresh] .
  show ?thesis
  proof (cases "verifyAccessToken L cfg t now")
    case (Inl e)
    then show ?thesis using hdr by (simp add: authenticateToken_def)
  next
    case (Inr decoded)
    then show ?thesis
      using hdr validateSession_revoked [OF r, of now]
      by (simp add: authenticateToken_def session_revoked_error_def)
  qed
qed


lemma sample_bearer: "bearer_token (Some (''Bearer '' @ alice_access)) = Some alice_access"
  by (simp add: bearer_token_def alice_access_def nth_opt_def)

lemma sample_verify_access:
  "verifyAccessToken sample_lib sample_config alice_access 9000 = Inr alice_info"
  by (simp add: verifyAccessToken_def sample_lib_def sample_jwt_verify_def sample_config_def
      alice_access_def alice_info_def)

lemma sample_live_before:
  "find (session_live sample_lib sample_state (hashToken sample_lib alice_access) 9000)
     (sessions sample_state) = Some alice_session"
  by code_simp

lemma sample_run_fresh:
  "\<forall>tok \<in> set (issued_in_run sample_lib sample_config
                  (snd (invalidateSession sample_lib sample_state alice_access)) sample_run).
     hashToken sample_lib tok \<noteq> hashToken sample_lib alice_access"
  by code_simp

theorem C2_revoked_token_rejected_witness:
  "find (session_live sample_lib sample_state (hashToken sample_lib alice_access) 9000)
     (sessions sample_state) = Some alice_session
   \<and> verifyAccessToken sample_lib sample_config alice_access 9000 = Inr alice_info
   \<and> fst (authenticateToken sample_lib sample_config
            (ta_run sample_lib sample_config
               (snd (invalidateSession sample_lib sample_state alice_access)) sample_run)
            (Some (''Bearer '' @ alice_access)) 9000)
       = Rejected 401 session_revoked_error"
proof -
  note fresh = sample_run_fresh
  from C2_revoked_token_rejected [OF sample_bearer fresh, of 9000] sample_verify_access
  have "fst (authenticateToken sample_lib sample_config
            (ta_run sample_lib sample_config
               (snd (invalidateSession sample_lib sample_state alice_access)) sample_run)
            (Some (''Bearer '' @ alice_access)) 9000)
       = Rejected 401 session_revoked_error"
    by auto
  with sample_live_before sample_verify_access show ?thesis by simp
qed

section \<open>Vault Codec: round trip\<close>















end
